theory Spec2Isabelle
  imports Main "HOL-Library.Sublist"
begin

section \<open>Composer4U: the generation task and its foreground controller\<close>

text \<open>
  The development embeds \<^verbatim>\<open>Composer4U/operators.py\<close>: the coroutine
  \<^verbatim>\<open>COMPOSER4U_OT_SendPrompt._generate_music_async\<close> (the generation Task), and the
  operators that drive it from the host's event loop (\<^verbatim>\<open>poll\<close>, \<^verbatim>\<open>invoke\<close>,
  \<^verbatim>\<open>modal\<close>, \<^verbatim>\<open>cancel\<close>, \<^verbatim>\<open>_cleanup\<close> and
  \<^verbatim>\<open>COMPOSER4U_OT_StopGeneration\<close>).

  Everything outside the repository is an input of the model: the messages the streaming
  session delivers, which library call raises and what, the clock, the temporary file name.
  The coroutine is a function from such an environment to its exception (if any) and its
  final state; every side effect it has is appended to a trace, so that properties of the
  order of effects can be stated. Debug \<^verbatim>\<open>print\<close> calls are left out.
\<close>

subsection \<open>Exceptions, files, messages\<close>

type_synonym path = string
type_synonym bytes = "nat list"

text \<open>
  The exceptions the code distinguishes. On the Python of Blender 4
  \<^verbatim>\<open>asyncio.CancelledError\<close> is a \<^verbatim>\<open>BaseException\<close> (a clause
  \<^verbatim>\<open>except Exception\<close> does not catch it), \<^verbatim>\<open>concurrent.futures.CancelledError\<close>
  is an \<^verbatim>\<open>Exception\<close>. \<open>Error m\<close> is any other exception, \<open>m\<close> its \<^verbatim>\<open>str()\<close>.
\<close>

datatype exn = Asyncio_CancelledError | Futures_CancelledError | Error string

fun is_cancelled_error :: "exn \<Rightarrow> bool" where
  "is_cancelled_error Asyncio_CancelledError = True"
| "is_cancelled_error Futures_CancelledError = True"
| "is_cancelled_error (Error m) = False"

fun caught_by_except_Exception :: "exn \<Rightarrow> bool" where
  "caught_by_except_Exception Asyncio_CancelledError = False"
| "caught_by_except_Exception Futures_CancelledError = True"
| "caught_by_except_Exception (Error m) = True"

definition FORMAT_WAV_BITS :: nat where "FORMAT_WAV_BITS = 16"
definition CHANNELS :: nat where "CHANNELS = 2"
definition OUTPUT_RATE :: nat where "OUTPUT_RATE = 48000"

text \<open>
  A sound file as the standard \<^verbatim>\<open>wave\<close> module writes it: the header is absent
  until the first \<^verbatim>\<open>writeframes\<close> or \<^verbatim>\<open>close\<close>, then it holds the format and
  the length in bytes of the data that follows; \<^verbatim>\<open>writeframes\<close> and \<^verbatim>\<open>close\<close>
  both leave the recorded length equal to the number of bytes written. The header takes
  44 bytes on disk.
\<close>

record wav_header =
  nchannels :: nat
  sampwidth :: nat
  framerate :: nat
  data_length :: nat

record sound_file =
  header :: "wav_header option"
  pcm :: bytes

definition empty_file :: sound_file where
  "empty_file = \<lparr>header = None, pcm = []\<rparr>"

definition getsize :: "sound_file \<Rightarrow> nat" where
  "getsize f = (case header f of None \<Rightarrow> 0 | Some h \<Rightarrow> 44) + length (pcm f)"

definition finalized :: "sound_file \<Rightarrow> sound_file" where
  "finalized f = f\<lparr>header := Some \<lparr>nchannels = CHANNELS, sampwidth = FORMAT_WAV_BITS div 8,
      framerate = OUTPUT_RATE, data_length = length (pcm f)\<rparr>\<rparr>"

definition nframes :: "sound_file \<Rightarrow> nat" where
  "nframes f = (case header f of None \<Rightarrow> 0
     | Some h \<Rightarrow> data_length h div (nchannels h * sampwidth h))"

text \<open>
  One message of \<^verbatim>\<open>session.receive()\<close>: \<^verbatim>\<open>server_content\<close> with its list of
  audio chunks, a \<^verbatim>\<open>filtered_prompt\<close> with its reason, or neither.
\<close>

datatype message = Server_content "bytes list" | Filtered_prompt string | Neither

text \<open>
  What the environment does around one delivered message: whether
  \<^verbatim>\<open>wav_writer.writeframes\<close> or \<^verbatim>\<open>output_stream.write\<close> raise on it.
\<close>

record delivery =
  msg :: message
  writeframes_error :: "exn option"
  device_write_error :: "exn option"

text \<open>
  One step of the \<^verbatim>\<open>async for\<close>: a message arrives, or awaiting it raises. A
  cancellation of the Task reaches the coroutine in this way only, as an
  \<^verbatim>\<open>asyncio.CancelledError\<close> raised at an \<^verbatim>\<open>await\<close>.
\<close>

datatype recv = Received delivery | Receive_raises exn

record env =
  directories :: "path list"
  now_stamp :: string
  isalnum :: "char \<Rightarrow> bool"
  fresh_temp :: path
  client_error :: "exn option"
  pyaudio_present :: bool
  device_open_error :: "exn option"
  wave_open_error :: "exn option"
  connect_error :: "exn option"
  set_prompts_error :: "exn option"
  play_error :: "exn option"
  incoming :: "recv list"
  session_exit_error :: "exn option"
  remove_refused :: bool
  wave_close_error :: "exn option"
  stop_stream_error :: "exn option"
  device_close_error :: "exn option"
  terminate_error :: "exn option"

definition isdir :: "env \<Rightarrow> path \<Rightarrow> bool" where
  "isdir e p = (p \<in> set (directories e))"

subsection \<open>The state of one Task\<close>

datatype effect =
    Temp_created path
  | Task_report string string
  | Client_new string
  | Pyaudio_new
  | Device_open
  | Wave_open path
  | Session_enter
  | Set_weighted_prompts string
  | Session_play
  | Write_frames bytes
  | Device_write bytes
  | Session_exit
  | Session_exit_failed
  | Removed path
  | Remove_failed path
  | Wave_close
  | Wave_close_failed
  | Device_stop
  | Device_stop_failed
  | Device_close
  | Device_close_failed
  | Pyaudio_terminate
  | Pyaudio_terminate_failed

text \<open>
  The dictionary \<^verbatim>\<open>result_container\<close> has two keys. \<^verbatim>\<open>'audio_filepath'\<close>
  is absent, or maps to a path or to \<^verbatim>\<open>None\<close>; \<^verbatim>\<open>'message'\<close> is absent or
  maps to a string.
\<close>

record container =
  rc_audio_filepath :: "path option option"
  rc_message :: "string option"

definition cleared :: container where
  "cleared = \<lparr>rc_audio_filepath = None, rc_message = None\<rparr>"

definition get_audio_filepath :: "container \<Rightarrow> path option" where
  "get_audio_filepath d = (case rc_audio_filepath d of None \<Rightarrow> None | Some v \<Rightarrow> v)"

definition get_message :: "container \<Rightarrow> string \<Rightarrow> string" where
  "get_message d dflt = (case rc_message d of None \<Rightarrow> dflt | Some m \<Rightarrow> m)"

record task =
  audio_filepath :: "path option"
  wav_writer :: bool
  p_audio :: bool
  output_stream :: bool
  was_cancelled :: bool
  result_container :: container
  disk :: "path \<rightharpoonup> sound_file"
  trace :: "effect list"

definition start :: "container \<Rightarrow> (path \<rightharpoonup> sound_file) \<Rightarrow> task" where
  "start rc d = \<lparr>audio_filepath = None, wav_writer = False, p_audio = False,
     output_stream = False, was_cancelled = False, result_container = rc, disk = d,
     trace = []\<rparr>"

definition emit :: "effect \<Rightarrow> task \<Rightarrow> task" where
  "emit x t = t\<lparr>trace := trace t @ [x]\<rparr>"

type_synonym run = "exn option \<times> task"

definition and_then :: "run \<Rightarrow> (task \<Rightarrow> run) \<Rightarrow> run" where
  "and_then r f = (case fst r of None \<Rightarrow> f (snd r) | Some e \<Rightarrow> r)"

definition may_raise :: "exn option \<Rightarrow> task \<Rightarrow> (task \<Rightarrow> run) \<Rightarrow> run" where
  "may_raise err t f = (case err of Some e \<Rightarrow> (Some e, t) | None \<Rightarrow> f t)"

subsection \<open>Resolving the output path\<close>

definition strip_char :: "char \<Rightarrow> string \<Rightarrow> string" where
  "strip_char c s = rev (dropWhile (\<lambda>x. x = c) (rev (dropWhile (\<lambda>x. x = c) s)))"

definition sanitized_prompt :: "env \<Rightarrow> string \<Rightarrow> string" where
  "sanitized_prompt e prompt_text =
     (let s = strip_char (CHR ''_'')
                (map (\<lambda>c. if isalnum e c then c else CHR ''_'') (take 30 prompt_text))
      in if s = [] then ''music'' else s)"

text \<open>\<^verbatim>\<open>os.path.join\<close> on a non-empty directory and a relative file name (POSIX).\<close>

definition path_join :: "path \<Rightarrow> string \<Rightarrow> path" where
  "path_join d f = (if d \<noteq> [] \<and> last d = CHR ''/'' then d @ f else d @ ''/'' @ f)"

definition resolved_path :: "env \<Rightarrow> string \<Rightarrow> path \<Rightarrow> path" where
  "resolved_path e prompt_text output_folder =
     (if output_folder \<noteq> [] \<and> isdir e output_folder
      then path_join output_folder
             (''composition_'' @ now_stamp e @ ''_'' @ sanitized_prompt e prompt_text @ ''.wav'')
      else fresh_temp e)"

definition resolve_output :: "env \<Rightarrow> string \<Rightarrow> path \<Rightarrow> task \<Rightarrow> run" where
  "resolve_output e prompt_text output_folder t =
     (let p = resolved_path e prompt_text output_folder;
          t1 = (if output_folder \<noteq> [] \<and> isdir e output_folder then t
                else emit (Temp_created p) (t\<lparr>disk := (disk t)(p \<mapsto> empty_file)\<rparr>));
          t2 = t1\<lparr>audio_filepath := Some p,
                  result_container := (result_container t1)\<lparr>rc_audio_filepath := Some (Some p)\<rparr>\<rparr>
      in (None, emit (Task_report ''INFO'' (''Audio will be saved to: '' @ p)) t2))"

subsection \<open>Opening the client, the device and the writer\<close>

definition new_client :: "env \<Rightarrow> string \<Rightarrow> task \<Rightarrow> run" where
  "new_client e api_key t =
     may_raise (client_error e) t (\<lambda>t. (None, emit (Client_new api_key) t))"

definition open_playback :: "env \<Rightarrow> task \<Rightarrow> run" where
  "open_playback e t =
     (if pyaudio_present e
      then may_raise (device_open_error e) (emit Pyaudio_new (t\<lparr>p_audio := True\<rparr>))
             (\<lambda>t. (None, emit Device_open (t\<lparr>output_stream := True\<rparr>)))
      else (None, t))"

definition on_file :: "(sound_file \<Rightarrow> sound_file) \<Rightarrow> task \<Rightarrow> task" where
  "on_file g t =
     (case audio_filepath t of None \<Rightarrow> t
      | Some p \<Rightarrow> (case disk t p of None \<Rightarrow> t
          | Some f \<Rightarrow> t\<lparr>disk := (disk t)(p \<mapsto> g f)\<rparr>))"

definition open_writer :: "env \<Rightarrow> task \<Rightarrow> run" where
  "open_writer e t =
     may_raise (wave_open_error e) t
       (\<lambda>t. case audio_filepath t of None \<Rightarrow> (Some (Error ''invalid file''), t)
          | Some p \<Rightarrow> (None, emit (Wave_open p)
                (t\<lparr>wav_writer := True, disk := (disk t)(p \<mapsto> empty_file)\<rparr>)))"

definition writeframes :: "bytes \<Rightarrow> task \<Rightarrow> task" where
  "writeframes chunk t =
     emit (Write_frames chunk) (on_file (\<lambda>f. finalized (f\<lparr>pcm := pcm f @ chunk\<rparr>)) t)"

subsection \<open>The streaming loop\<close>

text \<open>
  \<^verbatim>\<open>asyncio.current_task().cancelled()\<close>, called by the coroutine on its own task.
  A task is cancelled in this sense only once it is done, after its coroutine has ended
  with a \<^verbatim>\<open>CancelledError\<close>; for as long as the coroutine runs the call returns
  \<^verbatim>\<open>False\<close>, also after a cancellation was requested.
\<close>

definition current_task_cancelled :: "task \<Rightarrow> bool" where
  "current_task_cancelled t = False"

fun receive_loop :: "recv list \<Rightarrow> task \<Rightarrow> run" where
  "receive_loop [] t = (None, t)"
| "receive_loop (Receive_raises e # rest) t = (Some e, t)"
| "receive_loop (Received m # rest) t =
     (if current_task_cancelled t then (None, t\<lparr>was_cancelled := True\<rparr>)
      else (case msg m of
          Server_content chunks \<Rightarrow>
            (case chunks of
               [] \<Rightarrow> (Some (Error ''list index out of range''), t)
             | chunk # others \<Rightarrow>
                 may_raise (writeframes_error m) t (\<lambda>t.
                   let t1 = writeframes chunk t in
                   if output_stream t1
                   then may_raise (device_write_error m) t1
                          (\<lambda>t. receive_loop rest (emit (Device_write chunk) t))
                   else receive_loop rest t1))
        | Filtered_prompt reason \<Rightarrow>
            (Some (Error (''Prompt filtered by API: '' @ reason)), t)
        | Neither \<Rightarrow> receive_loop rest t))"

definition session_start :: "env \<Rightarrow> string \<Rightarrow> task \<Rightarrow> run" where
  "session_start e prompt_text t =
     and_then
       (may_raise (set_prompts_error e) t
          (\<lambda>t. (None, emit (Set_weighted_prompts prompt_text) t)))
       (\<lambda>t. may_raise (play_error e) t (\<lambda>t. (None, emit Session_play t)))"

text \<open>
  The \<^verbatim>\<open>async with\<close> block: whatever happens inside once the session is entered,
  leaving the session is tried before the exception travels on; an exception raised
  while leaving takes the place of the one that ended the block.
\<close>

definition leave_session :: "env \<Rightarrow> run \<Rightarrow> run" where
  "leave_session e r =
     (case session_exit_error e of
        None \<Rightarrow> (fst r, emit Session_exit (snd r))
      | Some y \<Rightarrow> (Some y, emit Session_exit_failed (snd r)))"

definition session :: "env \<Rightarrow> string \<Rightarrow> task \<Rightarrow> run" where
  "session e prompt_text t =
     may_raise (connect_error e) t (\<lambda>t.
       leave_session e
         (and_then (session_start e prompt_text (emit Session_enter t))
            (receive_loop (incoming e))))"

definition after_loop :: "task \<Rightarrow> run" where
  "after_loop t =
     (if \<not> was_cancelled t
      then (None, emit (Task_report ''INFO'' ''Music generation finished successfully.'')
              (t\<lparr>result_container :=
                    (result_container t)\<lparr>rc_message := Some ''Music generated successfully.''\<rparr>\<rparr>))
      else (None, t))"

subsection \<open>The coroutine: try, except, finally\<close>

definition prepare :: "env \<Rightarrow> string \<Rightarrow> string \<Rightarrow> path \<Rightarrow> task \<Rightarrow> run" where
  "prepare e api_key prompt_text output_folder t =
     and_then (and_then (and_then
       (resolve_output e prompt_text output_folder t)
       (new_client e api_key))
       (open_playback e))
       (open_writer e)"

definition try_block :: "env \<Rightarrow> string \<Rightarrow> string \<Rightarrow> path \<Rightarrow> task \<Rightarrow> run" where
  "try_block e api_key prompt_text output_folder t =
     and_then (and_then
       (prepare e api_key prompt_text output_folder t)
       (session e prompt_text))
       after_loop"

definition remove_artifact :: "env \<Rightarrow> task \<Rightarrow> task" where
  "remove_artifact e t =
     (case audio_filepath t of None \<Rightarrow> t
      | Some p \<Rightarrow>
          if p \<noteq> [] \<and> disk t p \<noteq> None
          then (if remove_refused e then emit (Remove_failed p) t
                else emit (Removed p) (t\<lparr>disk := (disk t)(p := None)\<rparr>))
          else t)"

definition except_clause :: "env \<Rightarrow> run \<Rightarrow> run" where
  "except_clause e r =
     (case fst r of None \<Rightarrow> r
      | Some x \<Rightarrow>
          if \<not> caught_by_except_Exception x then r
          else if is_cancelled_error x then (None, snd r)
          else (let t1 = remove_artifact e (snd r)
                in (Some x, t1\<lparr>result_container :=
                                  (result_container t1)\<lparr>rc_audio_filepath := Some None\<rparr>\<rparr>)))"

text \<open>
  The four calls of the \<^verbatim>\<open>finally\<close> block. Each may raise; none is guarded, so
  the first that raises ends the block and the calls after it are not made. A writer
  whose \<^verbatim>\<open>close\<close> raises leaves the file as it was.
\<close>

definition close_writer :: "env \<Rightarrow> task \<Rightarrow> run" where
  "close_writer e t =
     (case wave_close_error e of
        None \<Rightarrow> (None, emit Wave_close (on_file finalized t))
      | Some y \<Rightarrow> (Some y, emit Wave_close_failed t))"

definition stop_stream :: "env \<Rightarrow> task \<Rightarrow> run" where
  "stop_stream e t =
     (case stop_stream_error e of
        None \<Rightarrow> (None, emit Device_stop t)
      | Some y \<Rightarrow> (Some y, emit Device_stop_failed t))"

definition close_stream :: "env \<Rightarrow> task \<Rightarrow> run" where
  "close_stream e t =
     (case device_close_error e of
        None \<Rightarrow> (None, emit Device_close t)
      | Some y \<Rightarrow> (Some y, emit Device_close_failed t))"

definition terminate :: "env \<Rightarrow> task \<Rightarrow> run" where
  "terminate e t =
     (case terminate_error e of
        None \<Rightarrow> (None, emit Pyaudio_terminate t)
      | Some y \<Rightarrow> (Some y, emit Pyaudio_terminate_failed t))"

definition finally_clause :: "env \<Rightarrow> task \<Rightarrow> run" where
  "finally_clause e t =
     and_then (and_then
       (if wav_writer t then close_writer e t else (None, t))
       (\<lambda>t. if output_stream t then and_then (stop_stream e t) (close_stream e) else (None, t)))
       (\<lambda>t. if p_audio t then terminate e t else (None, t))"

text \<open>
  The coroutine. An exception raised in the \<^verbatim>\<open>finally\<close> block takes the place of
  the one the handler let through, if any.
\<close>

definition generate_music_async ::
  "env \<Rightarrow> string \<Rightarrow> string \<Rightarrow> path \<Rightarrow> container \<Rightarrow> (path \<rightharpoonup> sound_file) \<Rightarrow> run" where
  "generate_music_async e api_key prompt_text output_folder rc d =
     (let r = except_clause e (try_block e api_key prompt_text output_folder (start rc d));
          f = finally_clause e (snd r)
      in (case fst f of None \<Rightarrow> fst r | Some y \<Rightarrow> Some y, snd f))"

text \<open>
  How the try block of a Task ended, before the handler and the finalizers run:
  the three terminal outcomes of the Task.
\<close>

datatype outcome = Succeeded | Cancelled | Failed string

definition outcome_of :: "run \<Rightarrow> outcome" where
  "outcome_of r =
     (case fst r of
        None \<Rightarrow> if was_cancelled (snd r) then Cancelled else Succeeded
      | Some x \<Rightarrow> (case x of Error m \<Rightarrow> Failed m | _ \<Rightarrow> Cancelled))"

definition task_outcome :: "env \<Rightarrow> string \<Rightarrow> string \<Rightarrow> path \<Rightarrow> container \<Rightarrow>
    (path \<rightharpoonup> sound_file) \<Rightarrow> outcome" where
  "task_outcome e api_key prompt_text output_folder rc d =
     outcome_of (try_block e api_key prompt_text output_folder (start rc d))"

subsection \<open>Handles\<close>

text \<open>
  The handle is the \<^verbatim>\<open>concurrent.futures.Future\<close> that
  \<^verbatim>\<open>asyncio.run_coroutine_threadsafe\<close> returns. The code reads it through
  \<^verbatim>\<open>done()\<close> and \<^verbatim>\<open>result()\<close> and writes it through \<^verbatim>\<open>cancel()\<close>.
  \<open>Was_cancelled\<close> is every state in which \<^verbatim>\<open>result()\<close> raises a
  \<^verbatim>\<open>CancelledError\<close>.
\<close>

datatype future = Pending | Returned | Raised_error string | Was_cancelled

fun is_done :: "future \<Rightarrow> bool" where
  "is_done Pending = False"
| "is_done Returned = True"
| "is_done (Raised_error m) = True"
| "is_done Was_cancelled = True"

fun cancel_future :: "future \<Rightarrow> future" where
  "cancel_future Pending = Was_cancelled"
| "cancel_future Returned = Returned"
| "cancel_future (Raised_error m) = Raised_error m"
| "cancel_future Was_cancelled = Was_cancelled"

text \<open>The coroutine ends: its result is copied to a handle that is still pending.\<close>

fun settle :: "exn option \<Rightarrow> future \<Rightarrow> future" where
  "settle None Pending = Returned"
| "settle (Some (Error m)) Pending = Raised_error m"
| "settle (Some Asyncio_CancelledError) Pending = Was_cancelled"
| "settle (Some Futures_CancelledError) Pending = Was_cancelled"
| "settle r Returned = Returned"
| "settle r (Raised_error m) = Raised_error m"
| "settle r Was_cancelled = Was_cancelled"

subsection \<open>The foreground: scene properties and operator state\<close>

record world =
  api_key :: string
  genai_loaded :: bool
  composer4u_input :: string
  composer4u_output_folder :: string
  composer4u_history :: "string list"
  composer4u_index :: int
  composer4u_last_audio_path :: string
  handles :: "future list"
  async_task_future :: "nat option"
  async_tasks :: "nat list"
  shared_container :: container
  timer :: bool
  files :: "path \<rightharpoonup> sound_file"
  timeline_calls :: "path list"
  reports :: "(string \<times> string) list"
  background_trace :: "effect list"

record coroutine =
  co_api_key :: string
  co_prompt :: string
  co_output_folder :: string
  co_handle :: nat

datatype verdict = PASS_THROUGH | FINISHED

definition report :: "string \<Rightarrow> string \<Rightarrow> world \<Rightarrow> world" where
  "report level text w = w\<lparr>reports := reports w @ [(level, text)]\<rparr>"

text \<open>The future object held in the class attribute \<^verbatim>\<open>_async_task_future\<close>, if any.\<close>

definition current_future :: "world \<Rightarrow> future option" where
  "current_future w =
     (case async_task_future w of None \<Rightarrow> None
      | Some i \<Rightarrow> if i < length (handles w) then Some (handles w ! i) else None)"

definition whitespace :: "char \<Rightarrow> bool" where
  "whitespace c = ((of_char c :: nat) \<in> set [9, 10, 11, 12, 13, 28, 29, 30, 31, 32, 133, 160])"

definition strip :: "string \<Rightarrow> string" where
  "strip s = rev (dropWhile whitespace (rev (dropWhile whitespace s)))"

definition poll :: "world \<Rightarrow> bool" where
  "poll w =
     (if \<not> genai_loaded w then False
      else api_key w \<noteq> [] \<and>
           (case current_future w of None \<Rightarrow> True | Some f \<Rightarrow> is_done f))"

definition submit_async_task_to_background :: "world \<Rightarrow> world \<times> nat" where
  "submit_async_task_to_background w =
     (let h = length (handles w)
      in (w\<lparr>handles := handles w @ [Pending], async_tasks := async_tasks w @ [h]\<rparr>, h))"

definition invoke :: "env \<Rightarrow> world \<Rightarrow> world \<times> coroutine option" where
  "invoke e w =
     (if api_key w = [] then (report ''ERROR'' ''Google Gemini API Key not set.'' w, None)
      else
        let prompt = strip (composer4u_input w);
            output_folder = strip (composer4u_output_folder w)
        in if prompt = [] then (report ''WARNING'' ''Prompt is empty.'' w, None)
           else if output_folder \<noteq> [] \<and> \<not> isdir e output_folder
           then (report ''ERROR'' ''Output folder is invalid.'' w, None)
           else
             let w1 = w\<lparr>composer4u_history := composer4u_history w @ [''Prompt: '' @ prompt],
                        composer4u_input := [],
                        composer4u_last_audio_path := []\<rparr>;
                 w2 = w1\<lparr>composer4u_index := int (length (composer4u_history w1)) - 1\<rparr>;
                 w3 = report ''INFO'' ''Generating music...'' w2;
                 w4 = w3\<lparr>shared_container := cleared\<rparr>;
                 s = submit_async_task_to_background w4;
                 w5 = (fst s)\<lparr>async_task_future := Some (snd s), timer := True\<rparr>
             in (w5, Some \<lparr>co_api_key = api_key w, co_prompt = prompt,
                           co_output_folder = output_folder, co_handle = snd s\<rparr>))"

text \<open>The host calls \<^verbatim>\<open>invoke\<close> only where \<^verbatim>\<open>poll\<close> holds.\<close>

definition submit :: "env \<Rightarrow> world \<Rightarrow> world \<times> coroutine option" where
  "submit e w = (if poll w then invoke e w else (w, None))"

definition cleanup :: "world \<Rightarrow> world" where
  "cleanup w = w\<lparr>timer := False, async_task_future := None\<rparr>"

definition usable :: "world \<Rightarrow> path option \<Rightarrow> bool" where
  "usable w a =
     (case a of None \<Rightarrow> False
      | Some p \<Rightarrow> p \<noteq> [] \<and> (case files w p of None \<Rightarrow> False | Some f \<Rightarrow> 0 < getsize f))"

definition path_of :: "path option \<Rightarrow> path" where
  "path_of a = (case a of None \<Rightarrow> [] | Some p \<Rightarrow> p)"

text \<open>
  The \<^verbatim>\<open>try\<close>/\<^verbatim>\<open>except\<close> of \<^verbatim>\<open>modal\<close>: \<^verbatim>\<open>future.result()\<close> returns or
  raises; the result is the local \<^verbatim>\<open>audio_filepath\<close>, the local
  \<^verbatim>\<open>message_for_user\<close> and the scene.
\<close>

definition read_result :: "future \<Rightarrow> world \<Rightarrow> path option \<times> string \<times> world" where
  "read_result f w =
     (case f of
        Pending \<Rightarrow> (None, ''Generation finished.'', w)
      | Returned \<Rightarrow>
          (get_audio_filepath (shared_container w),
           get_message (shared_container w) ''Music generated successfully.'', w)
      | Was_cancelled \<Rightarrow>
          (let a = get_audio_filepath (shared_container w);
               w1 = report ''INFO'' ''Generation stopped.'' w
           in if usable w1 a
              then (a, ''Generation stopped by user.'',
                    report ''INFO'' ''Partial audio loaded into VSE.''
                      (w1\<lparr>composer4u_last_audio_path := path_of a,
                          timeline_calls := timeline_calls w1 @ [path_of a]\<rparr>))
              else (a, ''Generation stopped by user.'',
                    report ''WARNING''
                      ''Generation stopped, but no partial audio file was saved or it was empty.''
                      w1))
      | Raised_error m \<Rightarrow>
          (None, ''Error: '' @ m, report ''ERROR'' (''Music generation failed: '' @ m) w))"

definition final_check :: "path option \<Rightarrow> string \<Rightarrow> world \<Rightarrow> world" where
  "final_check a message_for_user w =
     (if usable w a then w\<lparr>composer4u_last_audio_path := path_of a\<rparr>
      else if sublist ''Error'' message_for_user \<or> sublist ''No audio file'' message_for_user
           then w\<lparr>composer4u_last_audio_path := []\<rparr>
           else w)"

definition modal :: "world \<Rightarrow> world \<times> verdict" where
  "modal w =
     (case current_future w of None \<Rightarrow> (w, PASS_THROUGH)
      | Some f \<Rightarrow>
          if \<not> is_done f then (w, PASS_THROUGH)
          else
            (case read_result f w of (a, message_for_user, w1) \<Rightarrow>
               let w2 = final_check a message_for_user w1;
                   w3 = w2\<lparr>composer4u_history :=
                             composer4u_history w2 @ [''Composer4U: '' @ message_for_user]\<rparr>;
                   w4 = w3\<lparr>composer4u_index := int (length (composer4u_history w3)) - 1\<rparr>
               in (cleanup w4, FINISHED)))"

definition cancel_current :: "world \<Rightarrow> world" where
  "cancel_current w =
     (case async_task_future w of None \<Rightarrow> w
      | Some i \<Rightarrow> if i < length (handles w)
                  then w\<lparr>handles := (handles w)[i := cancel_future (handles w ! i)]\<rparr> else w)"

text \<open>\<^verbatim>\<open>COMPOSER4U_OT_StopGeneration\<close>: \<^verbatim>\<open>poll\<close> and \<^verbatim>\<open>execute\<close>.\<close>

definition stop_poll :: "world \<Rightarrow> bool" where
  "stop_poll w = (case current_future w of None \<Rightarrow> False | Some f \<Rightarrow> \<not> is_done f)"

definition stop_execute :: "world \<Rightarrow> world" where
  "stop_execute w =
     (case current_future w of None \<Rightarrow> w
      | Some f \<Rightarrow> report ''INFO'' ''Sent stop request to music generation task.''
                    (cancel_current w))"

definition request_stop :: "world \<Rightarrow> world" where
  "request_stop w = (if stop_poll w then stop_execute w else w)"

text \<open>\<^verbatim>\<open>COMPOSER4U_OT_SendPrompt.cancel\<close>: the host cancels the modal operator.\<close>

definition cancel_operator :: "world \<Rightarrow> world" where
  "cancel_operator w =
     cleanup (case current_future w of None \<Rightarrow> w
       | Some f \<Rightarrow> if \<not> is_done f
                   then report ''INFO'' ''Generation cancelled by user (dialog closed).''
                          (cancel_current w)
                   else w)"

subsection \<open>The background: a Task runs to its end\<close>

definition settle_at :: "nat \<Rightarrow> exn option \<Rightarrow> future list \<Rightarrow> future list" where
  "settle_at i r hs = (if i < length hs then hs[i := settle r (hs ! i)] else hs)"

definition background_task :: "env \<Rightarrow> coroutine \<Rightarrow> world \<Rightarrow> world" where
  "background_task e c w =
     (let r = generate_music_async e (co_api_key c) (co_prompt c) (co_output_folder c)
                (shared_container w) (files w)
      in w\<lparr>shared_container := result_container (snd r),
           files := disk (snd r),
           background_trace := background_trace w @ trace (snd r),
           handles := settle_at (co_handle c) (fst r) (handles w)\<rparr>)"

definition reap :: "world \<Rightarrow> world" where
  "reap w = w\<lparr>async_tasks :=
       filter (\<lambda>i. i < length (handles w) \<and> \<not> is_done (handles w ! i)) (async_tasks w)\<rparr>"

subsection \<open>Runs of the process\<close>

datatype action =
    Type_prompt string
  | Choose_folder string
  | Submit
  | Stop
  | Tick
  | Operator_cancel
  | Background env coroutine
  | Reap

fun step :: "env \<Rightarrow> world \<Rightarrow> action \<Rightarrow> world" where
  "step e w (Type_prompt s) = w\<lparr>composer4u_input := s\<rparr>"
| "step e w (Choose_folder s) = w\<lparr>composer4u_output_folder := s\<rparr>"
| "step e w Submit = fst (submit e w)"
| "step e w Stop = request_stop w"
| "step e w Tick = fst (modal w)"
| "step e w Operator_cancel = cancel_operator w"
| "step e w (Background e' c) = background_task e' c w"
| "step e w Reap = reap w"

definition run_actions :: "env \<Rightarrow> world \<Rightarrow> action list \<Rightarrow> world" where
  "run_actions e w acts = foldl (step e) w acts"

definition live_handles :: "world \<Rightarrow> nat" where
  "live_handles w = length (filter (\<lambda>f. \<not> is_done f) (handles w))"

text \<open>
  One generation from submit to reconciliation, the Task having run to its end before
  the tick that finds the handle done; \<open>stop\<close> says whether the user asked to stop
  while the Task was running.
\<close>

definition generation :: "env \<Rightarrow> bool \<Rightarrow> world \<Rightarrow> world" where
  "generation e stop w =
     (case submit e w of
        (w1, None) \<Rightarrow> w1
      | (w1, Some c) \<Rightarrow>
          fst (modal (background_task e c (if stop then request_stop w1 else w1))))"

subsection \<open>Reading a trace\<close>

text \<open>
  Which resources a trace leaves open, and whether it uses them in order: frames are
  written to an open writer only, bytes are played on an open device only, the session is
  used between its entry and its exit. \<open>None\<close> is a trace that breaks this order.
\<close>

record resources =
  writer_open :: bool
  device_open :: bool
  pyaudio_live :: bool
  session_open :: bool

definition released :: resources where
  "released = \<lparr>writer_open = False, device_open = False, pyaudio_live = False,
     session_open = False\<rparr>"

definition require :: "bool \<Rightarrow> resources \<Rightarrow> resources option" where
  "require b r = (if b then Some r else None)"

fun use :: "resources \<Rightarrow> effect \<Rightarrow> resources option" where
  "use r (Wave_open p) = require (\<not> writer_open r) (r\<lparr>writer_open := True\<rparr>)"
| "use r (Write_frames c) = require (writer_open r) r"
| "use r Wave_close = require (writer_open r) (r\<lparr>writer_open := False\<rparr>)"
| "use r Pyaudio_new = require (\<not> pyaudio_live r) (r\<lparr>pyaudio_live := True\<rparr>)"
| "use r Device_open = require (pyaudio_live r \<and> \<not> device_open r) (r\<lparr>device_open := True\<rparr>)"
| "use r (Device_write c) = require (device_open r) r"
| "use r Device_stop = require (device_open r) r"
| "use r Device_close = require (device_open r) (r\<lparr>device_open := False\<rparr>)"
| "use r Pyaudio_terminate =
     require (pyaudio_live r \<and> \<not> device_open r) (r\<lparr>pyaudio_live := False\<rparr>)"
| "use r Session_enter = require (\<not> session_open r) (r\<lparr>session_open := True\<rparr>)"
| "use r (Set_weighted_prompts s) = require (session_open r) r"
| "use r Session_play = require (session_open r) r"
| "use r Session_exit = require (session_open r) (r\<lparr>session_open := False\<rparr>)"
| "use r Session_exit_failed = require (session_open r) r"
| "use r Wave_close_failed = require (writer_open r) r"
| "use r Device_stop_failed = require (device_open r) r"
| "use r Device_close_failed = require (device_open r) r"
| "use r Pyaudio_terminate_failed = require (pyaudio_live r) r"
| "use r (Temp_created p) = Some r"
| "use r (Task_report l s) = Some r"
| "use r (Client_new k) = Some r"
| "use r (Removed p) = Some r"
| "use r (Remove_failed p) = Some r"

fun protocol :: "resources \<Rightarrow> effect list \<Rightarrow> resources option" where
  "protocol r [] = Some r"
| "protocol r (x # xs) = (case use r x of None \<Rightarrow> None | Some r' \<Rightarrow> protocol r' xs)"

text \<open>The bytes a trace wrote to the file sink, and those it played, in order.\<close>

fun written :: "effect list \<Rightarrow> bytes" where
  "written [] = []"
| "written (Write_frames c # xs) = c @ written xs"
| "written (x # xs) = written xs"

fun played :: "effect list \<Rightarrow> bytes" where
  "played [] = []"
| "played (Device_write c # xs) = c @ played xs"
| "played (x # xs) = played xs"

fun removals :: "effect list \<Rightarrow> path list" where
  "removals [] = []"
| "removals (Removed p # xs) = p # removals xs"
| "removals (Remove_failed p # xs) = p # removals xs"
| "removals (x # xs) = removals xs"

subsection \<open>What holds of a Task between two statements\<close>

definition tracked :: "bool \<Rightarrow> task \<Rightarrow> bool" where
  "tracked s t =
     (protocol released (trace t) =
        Some \<lparr>writer_open = wav_writer t, device_open = output_stream t,
              pyaudio_live = p_audio t, session_open = s\<rparr>)"

definition file_matches :: "path \<Rightarrow> task \<Rightarrow> bool" where
  "file_matches p t =
     (if wav_writer t
      then (case disk t p of None \<Rightarrow> False
            | Some f \<Rightarrow> pcm f = written (trace t) \<and> (f = empty_file \<or> f = finalized f))
      else written (trace t) = [])"

definition path_kept :: "path \<Rightarrow> task \<Rightarrow> bool" where
  "path_kept p t =
     (audio_filepath t = Some p \<and> rc_audio_filepath (result_container t) = Some (Some p)
      \<and> removals (trace t) = [])"

definition running :: "path \<Rightarrow> bool \<Rightarrow> task \<Rightarrow> bool" where
  "running p s t = (path_kept p t \<and> tracked s t \<and> file_matches p t)"

definition handled :: "path \<Rightarrow> bool \<Rightarrow> task \<Rightarrow> bool" where
  "handled p s t =
     (audio_filepath t = Some p \<and> tracked s t \<and> (disk t p = None \<or> file_matches p t))"

text \<open>The session is entered and leaving it fails.\<close>

definition left_open :: "env \<Rightarrow> bool" where
  "left_open e = (connect_error e = None \<and> session_exit_error e \<noteq> None)"

text \<open>The first exception of a sequence of calls, each of which ends the sequence if it raises.\<close>

fun first_error :: "exn option list \<Rightarrow> exn option" where
  "first_error [] = None"
| "first_error (None # xs) = first_error xs"
| "first_error (Some y # xs) = Some y"

text \<open>No call of the \<^verbatim>\<open>finally\<close> block raises.\<close>

definition quiet_finally :: "env \<Rightarrow> bool" where
  "quiet_finally e =
     (wave_close_error e = None \<and> stop_stream_error e = None \<and> device_close_error e = None
      \<and> terminate_error e = None)"

text \<open>The state in which the streaming loop starts, and the statements after the loop.\<close>

definition loop_entry :: "env \<Rightarrow> string \<Rightarrow> string \<Rightarrow> path \<Rightarrow> task \<Rightarrow> task" where
  "loop_entry e k pt fo t0 =
     snd (session_start e pt (emit Session_enter (snd (prepare e k pt fo t0))))"

definition wind_up :: "env \<Rightarrow> task \<Rightarrow> task" where
  "wind_up e t = snd (finally_clause e (snd (after_loop (emit Session_exit t))))"

text \<open>
  A run in which no tick reconciles: each \<open>Tick\<close> of it finds no handle, or a handle
  that is not done.
\<close>

fun in_flight :: "env \<Rightarrow> world \<Rightarrow> action list \<Rightarrow> bool" where
  "in_flight e w [] = True"
| "in_flight e w (a # acts) =
     ((if a = Tick then snd (modal w) = PASS_THROUGH else True) \<and> in_flight e (step e w a) acts)"

text \<open>
  Along a run: the submissions that \<^verbatim>\<open>invoke\<close> accepts, and the ticks that find the
  handle of the class attribute done and reconcile it.
\<close>

fun accepted :: "env \<Rightarrow> world \<Rightarrow> action list \<Rightarrow> nat" where
  "accepted e w [] = 0"
| "accepted e w (Submit # acts) =
     (if snd (submit e w) \<noteq> None then 1 else 0) + accepted e (step e w Submit) acts"
| "accepted e w (a # acts) = accepted e (step e w a) acts"

fun reconciled :: "env \<Rightarrow> world \<Rightarrow> action list \<Rightarrow> nat" where
  "reconciled e w [] = 0"
| "reconciled e w (Tick # acts) =
     (if snd (modal w) = FINISHED then 1 else 0) + reconciled e (step e w Tick) acts"
| "reconciled e w (a # acts) = reconciled e (step e w a) acts"

text \<open>Every handle of the process but the one in the class attribute is done.\<close>

definition only_current_live :: "world \<Rightarrow> bool" where
  "only_current_live w =
     (\<forall>i < length (handles w). is_done (handles w ! i) \<or> async_task_future w = Some i)"

subsection \<open>Sample inputs\<close>

definition audio :: "bytes \<Rightarrow> delivery" where
  "audio c = \<lparr>msg = Server_content [c], writeframes_error = None,
     device_write_error = None\<rparr>"

definition quiet_env :: env where
  "quiet_env = \<lparr>directories = [''/music''], now_stamp = ''20250101_120000'',
     isalnum = (\<lambda>c. c \<in> set ''abcdefghijklmnopqrstuvwxyz0123456789''),
     fresh_temp = ''/tmp/tmpc4u.wav'', client_error = None, pyaudio_present = True,
     device_open_error = None, wave_open_error = None, connect_error = None,
     set_prompts_error = None, play_error = None, incoming = [], session_exit_error = None,
     remove_refused = False, wave_close_error = None, stop_stream_error = None,
     device_close_error = None, terminate_error = None\<rparr>"

definition studio :: world where
  "studio = \<lparr>api_key = ''key'', genai_loaded = True, composer4u_input = ''calm piano'',
     composer4u_output_folder = [], composer4u_history = [], composer4u_index = 0,
     composer4u_last_audio_path = [], handles = [], async_task_future = None,
     async_tasks = [], shared_container = cleared, timer = False, files = Map.empty,
     timeline_calls = [], reports = [], background_trace = []\<rparr>"

text \<open>A scene whose handle was cancelled after the Task wrote one chunk and closed the file.\<close>

definition stopped_studio :: world where
  "stopped_studio = studio\<lparr>handles := [Was_cancelled], async_task_future := Some 0,
     shared_container := \<lparr>rc_audio_filepath = Some (Some ''/tmp/tmpc4u.wav''), rc_message = None\<rparr>,
     files := [''/tmp/tmpc4u.wav'' \<mapsto> finalized \<lparr>header = None, pcm = [2, 4, 6, 8]\<rparr>]\<rparr>"

section \<open>Properties of the Task\<close>

subsection \<open>Traces\<close>

lemma protocol_append: "protocol r (xs @ ys) = (case protocol r xs of None \<Rightarrow> None | Some r' \<Rightarrow> protocol r' ys)"
  by (induction xs arbitrary: r) (auto split: option.splits)

lemma written_append: "written (xs @ ys) = written xs @ written ys"
  by (induction xs rule: written.induct) auto
lemma played_append: "played (xs @ ys) = played xs @ played ys"
  by (induction xs rule: played.induct) auto
lemma removals_append: "removals (xs @ ys) = removals xs @ removals ys"
  by (induction xs rule: removals.induct) auto

lemmas trace_simps = protocol_append written_append played_append removals_append

lemmas running_defs = running_def path_kept_def tracked_def file_matches_def

lemma finalized_idem: "finalized (finalized f) = finalized f"
  by (simp add: finalized_def)

lemma pcm_finalized: "pcm (finalized f) = pcm f"
  by (simp add: finalized_def)


lemma and_then_run:
  assumes "R r" and "\<And>t. R (None, t) \<Longrightarrow> S (f t)" and "\<And>x t. R (Some x, t) \<Longrightarrow> S (Some x, t)"
  shows "S (and_then r f)"
  using assms by (cases r) (auto simp: and_then_def split: option.splits)

lemma resolve_output_run:
  "fst (resolve_output e pt fo (start rc d)) = None"
  "running (resolved_path e pt fo) False (snd (resolve_output e pt fo (start rc d)))"
  "\<not> wav_writer (snd (resolve_output e pt fo (start rc d)))"
  "\<not> p_audio (snd (resolve_output e pt fo (start rc d)))"
  "\<not> output_stream (snd (resolve_output e pt fo (start rc d)))"
  "\<not> was_cancelled (snd (resolve_output e pt fo (start rc d)))"
  by (simp_all add: running_defs resolve_output_def start_def emit_def released_def Let_def)

lemma new_client_keeps:
  "wav_writer (snd (new_client e k t)) = wav_writer t"
  "p_audio (snd (new_client e k t)) = p_audio t"
  "output_stream (snd (new_client e k t)) = output_stream t"
  "was_cancelled (snd (new_client e k t)) = was_cancelled t"
  by (auto simp: new_client_def may_raise_def emit_def split: option.splits)

lemma new_client_run:
  "running p False t \<Longrightarrow> running p False (snd (new_client e k t))"
  by (auto simp: running_defs new_client_def may_raise_def emit_def trace_simps
      split: option.splits)

lemma open_playback_keeps:
  "wav_writer (snd (open_playback e t)) = wav_writer t"
  "was_cancelled (snd (open_playback e t)) = was_cancelled t"
  by (auto simp: open_playback_def may_raise_def emit_def split: option.splits)

lemma open_playback_run:
  "running p False t \<Longrightarrow> \<not> p_audio t \<Longrightarrow> \<not> output_stream t \<Longrightarrow>
   running p False (snd (open_playback e t))"
  by (auto simp: running_defs open_playback_def may_raise_def emit_def trace_simps require_def
      split: option.splits)

lemma open_writer_keeps:
  "was_cancelled (snd (open_writer e t)) = was_cancelled t"
  by (auto simp: open_writer_def may_raise_def emit_def split: option.splits)

lemma open_writer_opens:
  "fst (open_writer e t) = None \<Longrightarrow> wav_writer (snd (open_writer e t))"
  by (auto simp: open_writer_def may_raise_def emit_def split: option.splits)

lemma open_writer_run:
  "running p False t \<Longrightarrow> \<not> wav_writer t \<Longrightarrow> running p False (snd (open_writer e t))"
  by (auto simp: running_defs open_writer_def may_raise_def emit_def trace_simps require_def
      empty_file_def split: option.splits)

lemma prepare_run:
  "running (resolved_path e pt fo) False (snd (prepare e k pt fo (start rc d)))
   \<and> \<not> was_cancelled (snd (prepare e k pt fo (start rc d)))
   \<and> (fst (prepare e k pt fo (start rc d)) = None \<longrightarrow>
        wav_writer (snd (prepare e k pt fo (start rc d))))"
proof -
  let ?p = "resolved_path e pt fo"
  let ?A = "\<lambda>r. running ?p False (snd r) \<and> \<not> wav_writer (snd r) \<and> \<not> p_audio (snd r)
      \<and> \<not> output_stream (snd r) \<and> \<not> was_cancelled (snd r)"
  let ?B = "\<lambda>r. running ?p False (snd r) \<and> \<not> wav_writer (snd r) \<and> \<not> was_cancelled (snd r)"
  let ?S = "\<lambda>r. running ?p False (snd r) \<and> \<not> was_cancelled (snd r)
      \<and> (fst r = None \<longrightarrow> wav_writer (snd r))"
  have a: "?A (resolve_output e pt fo (start rc d))"
    by (simp add: resolve_output_run)
  have b: "?A (and_then (resolve_output e pt fo (start rc d)) (new_client e k))"
    by (rule and_then_run [where R = "?A", OF a]) (simp_all add: new_client_run new_client_keeps)
  have c: "?B (and_then (and_then (resolve_output e pt fo (start rc d)) (new_client e k))
             (open_playback e))"
    by (rule and_then_run [where R = "?A", OF b]) (simp_all add: open_playback_run open_playback_keeps)
  have "?S (prepare e k pt fo (start rc d))"
    unfolding prepare_def
    by (rule and_then_run [where R = "?B", OF c]) (simp_all add: open_writer_run open_writer_keeps open_writer_opens)
  then show ?thesis .
qed

lemma running_writeframes:
  "running p s t \<Longrightarrow> wav_writer t \<Longrightarrow> running p s (writeframes c t)"
  by (auto simp: running_defs writeframes_def on_file_def emit_def trace_simps require_def
      finalized_def empty_file_def split: option.splits)

lemma writeframes_keeps:
  "wav_writer (writeframes c t) = wav_writer t"
  "output_stream (writeframes c t) = output_stream t"
  "was_cancelled (writeframes c t) = was_cancelled t"
  by (auto simp: writeframes_def on_file_def emit_def split: option.splits)

lemma running_device_write:
  "running p s t \<Longrightarrow> output_stream t \<Longrightarrow> running p s (emit (Device_write c) t)"
  by (auto simp: running_defs emit_def trace_simps require_def split: option.splits)

lemma running_cancel_flag:
  "running p s t \<Longrightarrow> running p s (t\<lparr>was_cancelled := b\<rparr>)"
  by (auto simp: running_defs split: option.splits)

lemma running_loop:
  "running p s t \<Longrightarrow> wav_writer t \<Longrightarrow>
   running p s (snd (receive_loop xs t)) \<and> wav_writer (snd (receive_loop xs t))"
proof (induction xs arbitrary: t)
  case Nil
  then show ?case by simp
next
  case (Cons x rest)
  show ?case
  proof (cases x)
    case (Receive_raises e)
    with Cons.prems show ?thesis by simp
  next
    case (Received m)
    have w: "running p s (writeframes c t)" "wav_writer (writeframes c t)" for c
      using Cons.prems by (simp_all add: running_writeframes writeframes_keeps)
    have d: "output_stream t \<Longrightarrow> running p s (emit (Device_write c) (writeframes c t))" 
      "wav_writer (emit (Device_write c) (writeframes c t))" for c
      using w [of c] running_device_write [of p s "writeframes c t" c]
      by (simp_all add: writeframes_keeps) (simp add: emit_def writeframes_keeps)
    show ?thesis
      using Cons.prems Cons.IH w d Received
      by (simp add: may_raise_def current_task_cancelled_def writeframes_keeps Let_def
          split: message.splits list.splits option.splits)
  qed
qed

lemma running_enter: "running p False t \<Longrightarrow> running p True (emit Session_enter t)"
  by (auto simp: running_defs emit_def trace_simps require_def split: option.splits)

lemma running_exit: "running p True t \<Longrightarrow> running p False (emit Session_exit t)"
  by (auto simp: running_defs emit_def trace_simps require_def split: option.splits)

lemma session_start_keeps:
  "wav_writer (snd (session_start e pt t)) = wav_writer t"
  "was_cancelled (snd (session_start e pt t)) = was_cancelled t"
  by (auto simp: session_start_def and_then_def may_raise_def emit_def split: option.splits)

lemma session_start_run:
  "running p True t \<Longrightarrow> running p True (snd (session_start e pt t))"
  by (auto simp: running_defs session_start_def and_then_def may_raise_def emit_def trace_simps
      require_def split: option.splits)

lemma running_exit_failed:
  "running p True t \<Longrightarrow> running p True (emit Session_exit_failed t)"
  by (auto simp: running_defs emit_def trace_simps require_def split: option.splits)

lemma session_run:
  assumes "running p False t" and "wav_writer t"
  shows "running p (left_open e) (snd (session e pt t))"
proof (cases "connect_error e")
  case (Some x)
  with assms show ?thesis by (simp add: session_def may_raise_def left_open_def)
next
  case None
  let ?t1 = "snd (session_start e pt (emit Session_enter t))"
  have 1: "running p True ?t1" "wav_writer ?t1"
    using assms session_start_run [OF running_enter, of p t e pt]
    by (simp_all add: session_start_keeps) (simp add: emit_def)
  have "running p True (snd (and_then (session_start e pt (emit Session_enter t))
           (receive_loop (incoming e))))"
    using 1 running_loop [OF 1, of "incoming e"]
    by (simp add: and_then_def split: option.splits)
  then show ?thesis
    using None
    by (simp add: session_def may_raise_def leave_session_def left_open_def running_exit
        running_exit_failed split: option.splits)
qed

lemma after_loop_run: "running p s t \<Longrightarrow> running p s (snd (after_loop t))"
  by (auto simp: running_defs after_loop_def emit_def trace_simps split: option.splits)

lemma try_block_run:
  "running (resolved_path e pt fo)
     (left_open e \<and> fst (prepare e k pt fo (start rc d)) = None)
     (snd (try_block e k pt fo (start rc d)))"
proof (cases "fst (prepare e k pt fo (start rc d))")
  case (Some x)
  then show ?thesis
    using prepare_run [of e pt fo k rc d] by (simp add: try_block_def and_then_def)
next
  case None
  let ?p = "resolved_path e pt fo"
  let ?t = "snd (prepare e k pt fo (start rc d))"
  have "running ?p False ?t" "wav_writer ?t"
    using None prepare_run [of e pt fo k rc d] by simp_all
  then have s: "running ?p (left_open e) (snd (session e pt ?t))"
    by (rule session_run)
  have "try_block e k pt fo (start rc d) = and_then (session e pt ?t) after_loop"
    using None by (simp add: try_block_def and_then_def)
  then show ?thesis
    using s after_loop_run [OF s] None by (simp add: and_then_def split: option.splits)
qed

lemma try_block_closed:
  "session_exit_error e = None \<Longrightarrow>
   running (resolved_path e pt fo) False (snd (try_block e k pt fo (start rc d)))"
  using try_block_run [of e pt fo k rc d] by (simp add: left_open_def)

lemma running_handled: "running p s t \<Longrightarrow> handled p s t"
  by (simp add: running_def path_kept_def handled_def)

lemma remove_artifact_keeps:
  "audio_filepath (remove_artifact e t) = audio_filepath t"
  "wav_writer (remove_artifact e t) = wav_writer t"
  "p_audio (remove_artifact e t) = p_audio t"
  "output_stream (remove_artifact e t) = output_stream t"
  "was_cancelled (remove_artifact e t) = was_cancelled t"
  "result_container (remove_artifact e t) = result_container t"
  "written (trace (remove_artifact e t)) = written (trace t)"
  "played (trace (remove_artifact e t)) = played (trace t)"
  by (auto simp: remove_artifact_def emit_def trace_simps split: option.splits)

lemma remove_artifact_handled:
  "running p s t \<Longrightarrow> handled p s (remove_artifact e t)"
  by (auto simp: running_defs handled_def remove_artifact_def emit_def trace_simps
      split: option.splits)

lemma remove_artifact_disk:
  "audio_filepath t = Some p \<Longrightarrow> p \<noteq> [] \<Longrightarrow> \<not> remove_refused e \<Longrightarrow>
   disk (remove_artifact e t) p = None"
  by (auto simp: remove_artifact_def emit_def split: option.splits)

lemma handled_container:
  "handled p s t \<Longrightarrow> handled p s (t\<lparr>result_container := c\<rparr>)"
  by (auto simp: handled_def tracked_def file_matches_def split: option.splits)

lemmas finally_defs = finally_clause_def close_writer_def stop_stream_def close_stream_def
  terminate_def and_then_def

lemma finally_keeps:
  "audio_filepath (snd (finally_clause e t)) = audio_filepath t"
  "wav_writer (snd (finally_clause e t)) = wav_writer t"
  "was_cancelled (snd (finally_clause e t)) = was_cancelled t"
  "result_container (snd (finally_clause e t)) = result_container t"
  "written (trace (snd (finally_clause e t))) = written (trace t)"
  "played (trace (snd (finally_clause e t))) = played (trace t)"
  "removals (trace (snd (finally_clause e t))) = removals (trace t)"
  by (auto simp: finally_defs on_file_def emit_def trace_simps split: option.splits)

lemma finally_disk_None:
  "(disk (snd (finally_clause e t)) q = None) = (disk t q = None)"
  by (auto simp: finally_defs on_file_def emit_def split: option.splits)

lemma finally_disk:
  "disk (snd (finally_clause e t)) =
     disk (if wav_writer t \<and> wave_close_error e = None then on_file finalized t else t)"
  by (auto simp: finally_defs on_file_def emit_def split: option.splits)

lemma finally_fst:
  "fst (finally_clause e t) =
     first_error [if wav_writer t then wave_close_error e else None,
                  if output_stream t then stop_stream_error e else None,
                  if output_stream t then device_close_error e else None,
                  if p_audio t then terminate_error e else None]"
  by (auto simp: finally_defs on_file_def emit_def split: option.splits)


lemma finally_released:
  "tracked False t \<Longrightarrow> quiet_finally e \<Longrightarrow>
   protocol released (trace (snd (finally_clause e t))) = Some released"
  by (auto simp: tracked_def quiet_finally_def finally_defs on_file_def emit_def trace_simps
      require_def released_def split: option.splits)

lemma finally_file:
  "handled p s t \<Longrightarrow> wav_writer t \<Longrightarrow> disk (snd (finally_clause e t)) p = Some f \<Longrightarrow>
   pcm f = written (trace t) \<and> (if wave_close_error e = None then f = finalized f
                                  else f = empty_file \<or> f = finalized f)"
  by (auto simp: handled_def file_matches_def finally_disk on_file_def finalized_def
      empty_file_def split: option.splits if_splits)

lemma finally_file_exists:
  "running p s t \<Longrightarrow> wav_writer t \<Longrightarrow> disk (snd (finally_clause e t)) p \<noteq> None"
  by (auto simp: running_defs finally_disk_None split: option.splits)

lemma except_clause_handled:
  "running p s (snd r) \<Longrightarrow> handled p s (snd (except_clause e r))"
  by (auto simp: except_clause_def running_handled remove_artifact_handled handled_container
      Let_def split: option.splits)

lemma except_clause_flags:
  "wav_writer (snd (except_clause e r)) = wav_writer (snd r)"
  "output_stream (snd (except_clause e r)) = output_stream (snd r)"
  "p_audio (snd (except_clause e r)) = p_audio (snd r)"
  by (auto simp: except_clause_def remove_artifact_keeps Let_def split: option.splits)

lemma outcome_Cancelled_except:
  "outcome_of r = Cancelled \<Longrightarrow> snd (except_clause e r) = snd r"
  by (auto simp: outcome_of_def except_clause_def split: option.splits exn.splits if_splits)

lemma outcome_Failed_raised:
  "outcome_of r = Failed m \<Longrightarrow> fst r = Some (Error m)"
  by (auto simp: outcome_of_def split: option.splits exn.splits if_splits)

lemma outcome_not_Failed_except:
  "fst r \<noteq> Some (Error m) \<Longrightarrow> fst (except_clause e r) \<noteq> Some (Error m)"
  by (auto simp: except_clause_def Let_def split: option.splits exn.splits if_splits)

lemma generate_fst:
  "fst (generate_music_async e k pt fo rc d) =
     (case first_error
        [if wav_writer (snd (try_block e k pt fo (start rc d))) then wave_close_error e else None,
         if output_stream (snd (try_block e k pt fo (start rc d))) then stop_stream_error e
         else None,
         if output_stream (snd (try_block e k pt fo (start rc d))) then device_close_error e
         else None,
         if p_audio (snd (try_block e k pt fo (start rc d))) then terminate_error e else None] of
        None \<Rightarrow> fst (except_clause e (try_block e k pt fo (start rc d)))
      | Some y \<Rightarrow> Some y)"
  by (simp add: generate_music_async_def Let_def finally_fst except_clause_flags)

text \<open>
  If leaving the session and the calls of the \<^verbatim>\<open>finally\<close> block do not raise, the
  coroutine ends with every resource released and a closed file that holds what was
  written.
\<close>

lemma generate_releases:
  assumes "session_exit_error e = None" and "quiet_finally e"
  shows "protocol released (trace (snd (generate_music_async e k pt fo rc d))) = Some released \<and>
   (if wav_writer (snd (generate_music_async e k pt fo rc d))
    then (case disk (snd (generate_music_async e k pt fo rc d)) (resolved_path e pt fo) of
            None \<Rightarrow> True
          | Some f \<Rightarrow> f = finalized f \<and>
              pcm f = written (trace (snd (generate_music_async e k pt fo rc d))))
    else True)"
proof -
  let ?r0 = "try_block e k pt fo (start rc d)"
  let ?p = "resolved_path e pt fo"
  let ?t1 = "snd (except_clause e ?r0)"
  have h: "handled ?p False ?t1"
    by (rule except_clause_handled) (rule try_block_closed [OF assms(1)])
  then have "tracked False ?t1" by (simp add: handled_def)
  then have 1: "protocol released (trace (snd (finally_clause e ?t1))) = Some released"
    using assms(2) by (rule finally_released)
  have c: "wave_close_error e = None" using assms(2) by (simp add: quiet_finally_def)
  have 2: "f = finalized f \<and> pcm f = written (trace (snd (finally_clause e ?t1)))"
    if "wav_writer ?t1" "disk (snd (finally_clause e ?t1)) ?p = Some f" for f
    using finally_file [OF h that] c by (simp add: finally_keeps)
  show ?thesis
    using 1 2 by (simp add: generate_music_async_def Let_def finally_keeps split: option.splits)
qed

lemma generate_cancelled:
  assumes "task_outcome e k pt fo rc d = Cancelled"
  shows "get_audio_filepath (result_container (snd (generate_music_async e k pt fo rc d)))
           = Some (resolved_path e pt fo)
       \<and> audio_filepath (snd (generate_music_async e k pt fo rc d)) = Some (resolved_path e pt fo)
       \<and> removals (trace (snd (generate_music_async e k pt fo rc d))) = []
       \<and> (if wav_writer (snd (generate_music_async e k pt fo rc d))
          then (case disk (snd (generate_music_async e k pt fo rc d)) (resolved_path e pt fo) of
                  None \<Rightarrow> False
                | Some f \<Rightarrow>
                    pcm f = written (trace (snd (generate_music_async e k pt fo rc d))) \<and>
                    (if wave_close_error e = None then f = finalized f
                     else f = empty_file \<or> f = finalized f))
          else True)"
proof -
  let ?r0 = "try_block e k pt fo (start rc d)"
  let ?p = "resolved_path e pt fo"
  let ?s = "left_open e \<and> fst (prepare e k pt fo (start rc d)) = None"
  have c: "outcome_of ?r0 = Cancelled" using assms by (simp add: task_outcome_def)
  have e: "snd (except_clause e ?r0) = snd ?r0" by (rule outcome_Cancelled_except [OF c])
  have r: "running ?p ?s (snd ?r0)" by (rule try_block_run)
  have g: "snd (generate_music_async e k pt fo rc d) = snd (finally_clause e (snd ?r0))"
    by (simp add: generate_music_async_def Let_def e)
  have 1: "get_audio_filepath (result_container (snd (finally_clause e (snd ?r0)))) = Some ?p"
    "audio_filepath (snd (finally_clause e (snd ?r0))) = Some ?p"
    "removals (trace (snd (finally_clause e (snd ?r0)))) = []"
    using r by (simp_all add: finally_keeps running_def path_kept_def get_audio_filepath_def)
  have 2: "disk (snd (finally_clause e (snd ?r0))) ?p \<noteq> None" if "wav_writer (snd ?r0)"
    using finally_file_exists [OF r that] .
  have 3: "pcm f = written (trace (snd (finally_clause e (snd ?r0)))) \<and>
      (if wave_close_error e = None then f = finalized f else f = empty_file \<or> f = finalized f)"
    if "wav_writer (snd ?r0)" "disk (snd (finally_clause e (snd ?r0))) ?p = Some f" for f
    using finally_file [OF running_handled [OF r] that] by (simp add: finally_keeps)
  show ?thesis
    unfolding g using 1 2 3 by (auto simp: finally_keeps split: option.splits)
qed

lemma generate_failed:
  assumes "task_outcome e k pt fo rc d = Failed m"
  shows "fst (except_clause e (try_block e k pt fo (start rc d))) = Some (Error m)
       \<and> rc_audio_filepath (result_container (snd (generate_music_async e k pt fo rc d)))
           = Some None
       \<and> (if resolved_path e pt fo \<noteq> [] \<and> \<not> remove_refused e
          then disk (snd (generate_music_async e k pt fo rc d)) (resolved_path e pt fo) = None
          else True)"
proof -
  let ?r0 = "try_block e k pt fo (start rc d)"
  let ?p = "resolved_path e pt fo"
  let ?s = "left_open e \<and> fst (prepare e k pt fo (start rc d)) = None"
  have c: "outcome_of ?r0 = Failed m" using assms by (simp add: task_outcome_def)
  have x: "fst ?r0 = Some (Error m)" by (rule outcome_Failed_raised [OF c])
  have r: "running ?p ?s (snd ?r0)" by (rule try_block_run)
  then have a: "audio_filepath (snd ?r0) = Some ?p" by (simp add: running_def path_kept_def)
  have e: "except_clause e ?r0 =
      (Some (Error m), (remove_artifact e (snd ?r0))
         \<lparr>result_container := (result_container (remove_artifact e (snd ?r0)))
              \<lparr>rc_audio_filepath := Some None\<rparr>\<rparr>)"
    using x by (simp add: except_clause_def Let_def)
  have d: "disk (remove_artifact e (snd ?r0)) ?p = None" if "?p \<noteq> []" "\<not> remove_refused e"
    using remove_artifact_disk [OF a that] .
  show ?thesis
    using d by (simp add: generate_music_async_def Let_def e finally_keeps finally_disk_None)
qed


text \<open>
  The test of line 405 never holds, so the loop never sets \<^verbatim>\<open>was_cancelled\<close>: a
  Task is cancelled only by a \<^verbatim>\<open>CancelledError\<close> raised at an \<^verbatim>\<open>await\<close>.
\<close>

lemma receive_loop_flag:
  "was_cancelled (snd (receive_loop xs t)) = was_cancelled t"
proof (induction xs arbitrary: t)
  case Nil
  show ?case by simp
next
  case (Cons x xs)
  show ?case
    by (cases x)
      (simp_all add: Cons.IH may_raise_def current_task_cancelled_def Let_def writeframes_keeps
        emit_def split: message.splits list.splits option.splits)
qed

subsection \<open>The stream, cut and extended\<close>

lemma loop_continue:
  "receive_loop xs t = (None, t') \<Longrightarrow> \<not> was_cancelled t' \<Longrightarrow>
   receive_loop (xs @ ys) t = receive_loop ys t'"
proof (induction xs arbitrary: t)
  case Nil
  then show ?case by simp
next
  case (Cons x xs)
  show ?case
  proof (cases x)
    case (Receive_raises x2)
    with Cons.prems show ?thesis by simp
  next
    case (Received m)
    with Cons.prems Cons.IH show ?thesis
      by (auto simp: may_raise_def current_task_cancelled_def Let_def
          split: if_splits message.splits list.splits option.splits)
  qed
qed

lemma resolved_path_incoming [simp]:
  "resolved_path (e\<lparr>incoming := xs\<rparr>) pt fo = resolved_path e pt fo"
  by (simp add: resolved_path_def isdir_def sanitized_prompt_def)

lemma resolve_output_incoming [simp]:
  "resolve_output (e\<lparr>incoming := xs\<rparr>) pt fo t = resolve_output e pt fo t"
  by (simp add: resolve_output_def isdir_def)

lemma new_client_incoming [simp]: "new_client (e\<lparr>incoming := xs\<rparr>) = new_client e"
  by (simp add: new_client_def fun_eq_iff)

lemma open_playback_incoming [simp]: "open_playback (e\<lparr>incoming := xs\<rparr>) = open_playback e"
  by (simp add: open_playback_def fun_eq_iff)

lemma open_writer_incoming [simp]: "open_writer (e\<lparr>incoming := xs\<rparr>) = open_writer e"
  by (simp add: open_writer_def fun_eq_iff)

lemma prepare_incoming [simp]:
  "prepare (e\<lparr>incoming := xs\<rparr>) k pt fo t = prepare e k pt fo t"
  by (simp add: prepare_def)

lemma session_start_incoming [simp]:
  "session_start (e\<lparr>incoming := xs\<rparr>) pt t = session_start e pt t"
  by (simp add: session_start_def)

lemma after_loop_fst [simp]: "fst (after_loop t) = None"
  by (simp add: after_loop_def)

lemma after_loop_cancelled [simp]: "was_cancelled (snd (after_loop t)) = was_cancelled t"
  by (simp add: after_loop_def emit_def)

lemma succeeded_decomp:
  assumes "outcome_of (try_block (e\<lparr>incoming := xs\<rparr>) k pt fo t0) = Succeeded"
  shows "fst (prepare e k pt fo t0) = None"
    and "fst (receive_loop xs (loop_entry e k pt fo t0)) = None"
    and "\<not> was_cancelled (snd (receive_loop xs (loop_entry e k pt fo t0)))"
    and "try_block (e\<lparr>incoming := ys\<rparr>) k pt fo t0 =
           and_then (fst (receive_loop ys (loop_entry e k pt fo t0)),
                     emit Session_exit (snd (receive_loop ys (loop_entry e k pt fo t0))))
             after_loop"
    and "session_exit_error e = None"
proof -
  let ?rp = "prepare e k pt fo t0"
  let ?rs = "session_start e pt (emit Session_enter (snd ?rp))"
  let ?blk = "\<lambda>ys. try_block (e\<lparr>incoming := ys\<rparr>) k pt fo t0"
  have ok: "fst (?blk xs) = None" "\<not> was_cancelled (snd (?blk xs))"
    using assms by (auto simp: outcome_of_def split: option.splits exn.splits if_splits)
  show p: "fst ?rp = None"
    using ok(1) by (auto simp: try_block_def and_then_def split: option.splits)
  have c: "connect_error e = None"
    using ok(1) p
    by (auto simp: try_block_def and_then_def session_def may_raise_def split: option.splits)
  show x: "session_exit_error e = None"
    using ok(1) p c
    by (auto simp: try_block_def and_then_def session_def may_raise_def leave_session_def
        split: option.splits)
  have s: "fst ?rs = None"
    using ok(1) p c x
    by (auto simp: try_block_def and_then_def session_def may_raise_def leave_session_def
        split: option.splits)
  have t: "?blk zs =
      and_then (fst (receive_loop zs (snd ?rs)), emit Session_exit (snd (receive_loop zs (snd ?rs))))
        after_loop" for zs
    using p c s x
    by (simp add: try_block_def and_then_def session_def may_raise_def leave_session_def)
  show l: "fst (receive_loop xs (loop_entry e k pt fo t0)) = None"
    using ok(1) unfolding t loop_entry_def by (auto simp: and_then_def split: option.splits)
  show "\<not> was_cancelled (snd (receive_loop xs (loop_entry e k pt fo t0)))"
    using ok(2) l unfolding t loop_entry_def by (simp add: and_then_def emit_def)
  show "?blk ys =
      and_then (fst (receive_loop ys (loop_entry e k pt fo t0)),
                emit Session_exit (snd (receive_loop ys (loop_entry e k pt fo t0))))
        after_loop"
    unfolding loop_entry_def by (rule t)
qed

lemma writeframes_flags:
  "p_audio (writeframes c t) = p_audio t"
  "audio_filepath (writeframes c t) = audio_filepath t"
  "written (trace (writeframes c t)) = written (trace t) @ c"
  "played (trace (writeframes c t)) = played (trace t)"
  by (auto simp: writeframes_def on_file_def emit_def trace_simps split: option.splits)

lemma receive_loop_keeps:
  "wav_writer (snd (receive_loop xs t)) = wav_writer t"
  "output_stream (snd (receive_loop xs t)) = output_stream t"
  "p_audio (snd (receive_loop xs t)) = p_audio t"
  "audio_filepath (snd (receive_loop xs t)) = audio_filepath t"
proof (induction xs arbitrary: t)
  case Nil
  {
    case 1 show ?case by simp
  next
    case 2 show ?case by simp
  next
    case 3 show ?case by simp
  next
    case 4 show ?case by simp
  }
next
  case (Cons x xs)
  {
    case 1 show ?case
      by (cases x) (simp_all add: Cons.IH may_raise_def current_task_cancelled_def Let_def
          writeframes_keeps emit_def split: message.splits list.splits option.splits)
  next
    case 2 show ?case
      by (cases x) (simp_all add: Cons.IH may_raise_def current_task_cancelled_def Let_def
          writeframes_keeps emit_def split: message.splits list.splits option.splits)
  next
    case 3 show ?case
      by (cases x) (simp_all add: Cons.IH may_raise_def current_task_cancelled_def Let_def
          writeframes_flags emit_def split: message.splits list.splits option.splits)
  next
    case 4 show ?case
      by (cases x) (simp_all add: Cons.IH may_raise_def current_task_cancelled_def Let_def
          writeframes_flags emit_def split: message.splits list.splits option.splits)
  }
qed

lemma prepare_flags:
  assumes "fst (prepare e k pt fo (start rc d)) = None"
  shows "output_stream (snd (prepare e k pt fo (start rc d))) = pyaudio_present e"
    and "p_audio (snd (prepare e k pt fo (start rc d))) = pyaudio_present e"
  using assms
  by (simp_all add: prepare_def and_then_def resolve_output_def new_client_def open_playback_def
      open_writer_def may_raise_def emit_def start_def Let_def split: option.splits if_splits)

lemma wind_up_trace:
  "written (trace (wind_up e t)) = written (trace t)"
  "played (trace (wind_up e t)) = played (trace t)"
  by (simp_all add: wind_up_def finally_keeps after_loop_def emit_def trace_simps)

lemma generate_returned:
  assumes "try_block e k pt fo (start rc d) = and_then (None, emit Session_exit t) after_loop"
  shows "snd (generate_music_async e k pt fo rc d) = wind_up e t"
  using assms
  by (simp add: generate_music_async_def Let_def and_then_def except_clause_def wind_up_def)

lemma generate_raised:
  assumes "try_block e k pt fo (start rc d) = and_then (Some x, emit Session_exit t) after_loop"
  shows "written (trace (snd (generate_music_async e k pt fo rc d))) = written (trace t)"
    and "played (trace (snd (generate_music_async e k pt fo rc d))) = played (trace t)"
  using assms
  by (simp_all add: generate_music_async_def Let_def and_then_def except_clause_def finally_keeps
      remove_artifact_keeps emit_def trace_simps)

lemma loop_clean_chunk:
  assumes "msg m = Server_content (c # cs)" "writeframes_error m = None"
    "device_write_error m = None"
  shows "receive_loop (Received m # rest) t =
     receive_loop rest (if output_stream t then emit (Device_write c) (writeframes c t)
                        else writeframes c t)"
  using assms by (simp add: may_raise_def current_task_cancelled_def Let_def writeframes_keeps)

lemma loop_device_error:
  assumes "msg m = Server_content (c # cs)" "writeframes_error m = None"
    "device_write_error m = Some x" "output_stream t"
  shows "receive_loop (Received m # rest) t = (Some x, writeframes c t)"
  using assms by (simp add: may_raise_def current_task_cancelled_def Let_def writeframes_keeps)

lemma session_start_flags:
  "output_stream (snd (session_start e pt t)) = output_stream t"
  "p_audio (snd (session_start e pt t)) = p_audio t"
  by (auto simp: session_start_def and_then_def may_raise_def emit_def split: option.splits)

lemma generate_trace:
  assumes "try_block e k pt fo (start rc d) = and_then (x, emit Session_exit t) after_loop"
  shows "written (trace (snd (generate_music_async e k pt fo rc d))) = written (trace t)"
    and "played (trace (snd (generate_music_async e k pt fo rc d))) = played (trace t)"
  using assms generate_raised [of e k pt fo rc d _ t]
    generate_returned [of e k pt fo rc d t]
  by (cases x; simp add: wind_up_trace)+

section \<open>Properties of the controller\<close>

lemma report_keeps [simp]:
  "composer4u_history (report l s w) = composer4u_history w"
  "composer4u_input (report l s w) = composer4u_input w"
  "composer4u_last_audio_path (report l s w) = composer4u_last_audio_path w"
  "composer4u_output_folder (report l s w) = composer4u_output_folder w"
  "handles (report l s w) = handles w"
  "async_task_future (report l s w) = async_task_future w"
  "async_tasks (report l s w) = async_tasks w"
  "shared_container (report l s w) = shared_container w"
  "files (report l s w) = files w"
  "timeline_calls (report l s w) = timeline_calls w"
  "background_trace (report l s w) = background_trace w"
  "api_key (report l s w) = api_key w"
  "genai_loaded (report l s w) = genai_loaded w"
  "current_future (report l s w) = current_future w"
  "usable (report l s w) a = usable w a"
  by (simp_all add: report_def current_future_def usable_def split: option.splits)

lemma submit_accepted:
  assumes "submit e w = (w1, Some c)"
  shows "composer4u_history w1 = composer4u_history w @ [''Prompt: '' @ co_prompt c]"
    and "composer4u_input w1 = []"
    and "composer4u_last_audio_path w1 = []"
    and "shared_container w1 = cleared"
    and "files w1 = files w"
    and "timeline_calls w1 = timeline_calls w"
    and "background_trace w1 = background_trace w"
    and "handles w1 = handles w @ [Pending]"
    and "async_task_future w1 = Some (length (handles w))"
    and "co_handle c = length (handles w)"
    and "co_prompt c = strip (composer4u_input w)"
    and "co_output_folder c = strip (composer4u_output_folder w)"
    and "co_api_key c = api_key w"
    and "co_prompt c \<noteq> []"
    and "poll w"
  using assms
  by (auto simp: submit_def invoke_def submit_async_task_to_background_def Let_def
      split: if_splits)

lemma submit_rejected:
  "submit e w = (w1, None) \<Longrightarrow> composer4u_history w1 = composer4u_history w
     \<and> composer4u_last_audio_path w1 = composer4u_last_audio_path w
     \<and> handles w1 = handles w \<and> async_task_future w1 = async_task_future w"
  by (auto simp: submit_def invoke_def submit_async_task_to_background_def Let_def
      split: if_splits)

lemma read_result_keeps:
  "composer4u_history (snd (snd (read_result f w))) = composer4u_history w"
  "handles (snd (snd (read_result f w))) = handles w"
  "files (snd (snd (read_result f w))) = files w"
  "shared_container (snd (snd (read_result f w))) = shared_container w"
  "background_trace (snd (snd (read_result f w))) = background_trace w"
  by (cases f; simp add: read_result_def Let_def)+

lemma final_check_keeps:
  "composer4u_history (final_check a m w) = composer4u_history w"
  "handles (final_check a m w) = handles w"
  "files (final_check a m w) = files w"
  "timeline_calls (final_check a m w) = timeline_calls w"
  "shared_container (final_check a m w) = shared_container w"
  by (simp_all add: final_check_def)

lemma modal_pending:
  "current_future w = None \<Longrightarrow> modal w = (w, PASS_THROUGH)"
  "current_future w = Some f \<Longrightarrow> \<not> is_done f \<Longrightarrow> modal w = (w, PASS_THROUGH)"
  by (simp_all add: modal_def)

lemma modal_done:
  assumes "current_future w = Some f" and "is_done f"
  shows "snd (modal w) = FINISHED"
    and "composer4u_history (fst (modal w)) =
           composer4u_history w @ [''Composer4U: '' @ fst (snd (read_result f w))]"
    and "composer4u_last_audio_path (fst (modal w)) =
           composer4u_last_audio_path
             (final_check (fst (read_result f w)) (fst (snd (read_result f w)))
                (snd (snd (read_result f w))))"
    and "timeline_calls (fst (modal w)) = timeline_calls (snd (snd (read_result f w)))"
    and "async_task_future (fst (modal w)) = None"
    and "handles (fst (modal w)) = handles w"
    and "files (fst (modal w)) = files w"
    and "shared_container (fst (modal w)) = shared_container w"
  using assms
  by (simp_all add: modal_def cleanup_def Let_def final_check_keeps read_result_keeps
      case_prod_beta)

lemma settle_done [simp]: "is_done (settle x f)"
  by (cases "(x, f)" rule: settle.cases) simp_all

lemma request_stop_pending:
  assumes "async_task_future w = Some h" and "handles w = hs @ [Pending]" and "h = length hs"
  shows "handles (request_stop w) = hs @ [Was_cancelled]"
    and "async_task_future (request_stop w) = Some h"
    and "composer4u_history (request_stop w) = composer4u_history w"
    and "composer4u_last_audio_path (request_stop w) = composer4u_last_audio_path w"
    and "shared_container (request_stop w) = shared_container w"
    and "files (request_stop w) = files w"
    and "timeline_calls (request_stop w) = timeline_calls w"
    and "background_trace (request_stop w) = background_trace w"
  using assms
  by (simp_all add: request_stop_def stop_poll_def stop_execute_def cancel_current_def
      current_future_def)

lemma background_task_keeps:
  "composer4u_history (background_task e c w) = composer4u_history w"
  "composer4u_last_audio_path (background_task e c w) = composer4u_last_audio_path w"
  "composer4u_input (background_task e c w) = composer4u_input w"
  "timeline_calls (background_task e c w) = timeline_calls w"
  "async_task_future (background_task e c w) = async_task_future w"
  "length (handles (background_task e c w)) = length (handles w)"
  by (simp_all add: background_task_def Let_def settle_at_def)

lemma sublist_Error: "sublist ''Error'' (''Error: '' @ m)"
  unfolding sublist_def by (rule exI [of _ "[]"], rule exI [of _ "'': '' @ m"]) simp

text \<open>The state in which the tick after the Task reconciles.\<close>

lemma generation_run:
  fixes stop :: bool
  assumes acc: "submit e w = (w1, Some c)"
  defines "r \<equiv> generate_music_async e (co_api_key c) (co_prompt c) (co_output_folder c)
                  cleared (files w)"
    and "w3 \<equiv> background_task e c (if stop then request_stop w1 else w1)"
  shows "generation e stop w = fst (modal w3)"
    and "current_future w3 = Some (settle (fst r) (if stop then Was_cancelled else Pending))"
    and "shared_container w3 = result_container (snd r)"
    and "files w3 = disk (snd r)"
    and "composer4u_history w3 = composer4u_history w @ [''Prompt: '' @ co_prompt c]"
    and "composer4u_last_audio_path w3 = []"
    and "timeline_calls w3 = timeline_calls w"
    and "background_trace w3 = background_trace w @ trace (snd r)"
proof -
  note a = submit_accepted [OF acc]
  let ?w2 = "if stop then request_stop w1 else w1"
  note s = request_stop_pending [OF a(9) a(8) refl]
  have h2: "handles ?w2 = handles w @ [if stop then Was_cancelled else Pending]"
    and f2: "async_task_future ?w2 = Some (length (handles w))"
    and c2: "shared_container ?w2 = cleared" and d2: "files ?w2 = files w"
    and hi2: "composer4u_history ?w2 = composer4u_history w @ [''Prompt: '' @ co_prompt c]"
    and l2: "composer4u_last_audio_path ?w2 = []"
    and t2: "timeline_calls ?w2 = timeline_calls w"
    and b2: "background_trace ?w2 = background_trace w"
    using a s by simp_all
  show "generation e stop w = fst (modal w3)"
    by (simp add: generation_def acc w3_def)
  show "current_future w3 = Some (settle (fst r) (if stop then Was_cancelled else Pending))"
    unfolding w3_def r_def
    by (simp add: background_task_def Let_def settle_at_def current_future_def h2 f2 c2 d2 a(10))
  show "shared_container w3 = result_container (snd r)"
    unfolding w3_def r_def by (simp add: background_task_def Let_def c2 d2)
  show "files w3 = disk (snd r)"
    unfolding w3_def r_def by (simp add: background_task_def Let_def c2 d2)
  show "composer4u_history w3 = composer4u_history w @ [''Prompt: '' @ co_prompt c]"
    unfolding w3_def by (simp only: background_task_keeps hi2)
  show "composer4u_last_audio_path w3 = []"
    unfolding w3_def by (simp only: background_task_keeps l2)
  show "timeline_calls w3 = timeline_calls w"
    unfolding w3_def by (simp only: background_task_keeps t2)
  show "background_trace w3 = background_trace w @ trace (snd r)"
    unfolding w3_def r_def by (simp add: background_task_def Let_def c2 d2 b2)
qed

lemmas task_defs = generate_music_async_def try_block_def prepare_def session_def
  leave_session_def session_start_def after_loop_def except_clause_def finally_clause_def
  resolve_output_def new_client_def open_playback_def open_writer_def writeframes_def
  close_writer_def stop_stream_def close_stream_def terminate_def current_task_cancelled_def
  on_file_def remove_artifact_def and_then_def may_raise_def emit_def start_def
  resolved_path_def isdir_def empty_file_def finalized_def Let_def

lemmas sample_defs = quiet_env_def audio_def studio_def cleared_def

lemma read_result_cancelled_path:
  "fst (read_result Was_cancelled w) = get_audio_filepath (shared_container w)"
  by (simp add: read_result_def Let_def)

lemma step_history_prefix:
  "prefix (composer4u_history w) (composer4u_history (step e w a))"
proof (cases a)
  case Submit
  show ?thesis
  proof (cases "submit e w")
    case (Pair w1 c)
    then show ?thesis
      using submit_accepted(1) [of e w w1] submit_rejected [of e w w1] Submit
      by (cases c) auto
  qed
next
  case Tick
  show ?thesis
  proof (cases "current_future w")
    case None
    with Tick show ?thesis by (simp add: modal_pending)
  next
    case (Some f)
    with Tick show ?thesis
      by (cases "is_done f") (simp_all add: modal_pending modal_done)
  qed
next
  case Stop
  then show ?thesis
    by (simp add: request_stop_def stop_execute_def cancel_current_def split: option.splits)
next
  case Operator_cancel
  then show ?thesis
    by (simp add: cancel_operator_def cleanup_def cancel_current_def split: option.splits)
next
  case (Background e' c)
  then show ?thesis by (simp add: background_task_keeps)
next
  case Reap
  then show ?thesis by (simp add: reap_def)
qed simp_all

lemma run_history_prefix:
  "prefix (composer4u_history w) (composer4u_history (run_actions e w acts))"
proof (induction acts arbitrary: w)
  case Nil
  show ?case by (simp add: run_actions_def)
next
  case (Cons a acts)
  have "prefix (composer4u_history w) (composer4u_history (step e w a))"
    by (rule step_history_prefix)
  also have "prefix \<dots> (composer4u_history (run_actions e (step e w a) acts))"
    by (rule Cons.IH)
  finally show ?case by (simp add: run_actions_def)
qed

lemma usable_None [simp]: "\<not> usable w None"
  by (simp add: usable_def)

lemma modal_timeline:
  assumes "current_future w = Some f" and "is_done f"
  shows "timeline_calls (fst (modal w)) =
           timeline_calls w @
             (if f = Was_cancelled \<and> usable w (get_audio_filepath (shared_container w))
              then [path_of (get_audio_filepath (shared_container w))] else [])
       \<and> (if usable w (get_audio_filepath (shared_container w))
              \<and> (f = Returned \<or> f = Was_cancelled)
          then composer4u_last_audio_path (fst (modal w))
                 = path_of (get_audio_filepath (shared_container w))
          else True)"
proof (cases f)
  case Pending
  with assms show ?thesis by simp
next
  case Returned
  with assms show ?thesis
    by (simp add: modal_done read_result_def final_check_def)
next
  case (Raised_error m)
  with assms show ?thesis
    by (simp add: modal_done read_result_def final_check_def)
next
  case Was_cancelled
  with assms show ?thesis
    by (simp add: modal_done read_result_def final_check_def Let_def usable_def
        split: option.splits)
qed

lemmas world_defs = generation_def submit_def poll_def invoke_def current_future_def strip_def
  whitespace_def submit_async_task_to_background_def report_def background_task_def
  settle_at_def modal_def read_result_def final_check_def usable_def path_of_def cleanup_def
  request_stop_def stop_poll_def stop_execute_def cancel_current_def get_audio_filepath_def
  get_message_def getsize_def sublist_code prefix_code

lemma studio_submit:
  "submit (quiet_env\<lparr>incoming := xs\<rparr>) studio =
     (fst (submit (quiet_env\<lparr>incoming := xs\<rparr>) studio),
      Some \<lparr>co_api_key = ''key'', co_prompt = ''calm piano'', co_output_folder = [],
            co_handle = 0\<rparr>)"
  by (simp add: prod_eq_iff submit_def poll_def invoke_def current_future_def strip_def
      whitespace_def submit_async_task_to_background_def report_def studio_def Let_def)

lemma nframes_finalized: "nframes (finalized f) = length (pcm f) div 4"
  by (simp add: nframes_def finalized_def CHANNELS_def FORMAT_WAV_BITS_def)

lemma getsize_finalized: "getsize (finalized f) = 44 + length (pcm f)"
  by (simp add: getsize_def finalized_def)

lemma stop_env_task:
  "fst (generate_music_async (quiet_env\<lparr>incoming := [Receive_raises Asyncio_CancelledError]\<rparr>)
      ''key'' ''calm piano'' [] cleared Map.empty) = Some Asyncio_CancelledError"
  "get_audio_filepath (result_container (snd (generate_music_async
      (quiet_env\<lparr>incoming := [Receive_raises Asyncio_CancelledError]\<rparr>)
      ''key'' ''calm piano'' [] cleared Map.empty))) = Some ''/tmp/tmpc4u.wav''"
  "disk (snd (generate_music_async (quiet_env\<lparr>incoming := [Receive_raises Asyncio_CancelledError]\<rparr>)
      ''key'' ''calm piano'' [] cleared Map.empty)) ''/tmp/tmpc4u.wav''
     = Some (finalized empty_file)"
  "written (trace (snd (generate_music_async
      (quiet_env\<lparr>incoming := [Receive_raises Asyncio_CancelledError]\<rparr>)
      ''key'' ''calm piano'' [] cleared Map.empty))) = []"
  by (simp_all add: sample_defs task_defs get_audio_filepath_def)

lemma played_task:
  "fst (generate_music_async (quiet_env\<lparr>incoming := [Received (audio [2, 4, 6, 8])]\<rparr>)
      ''key'' ''calm piano'' [] cleared Map.empty) = None"
  "get_audio_filepath (result_container (snd (generate_music_async
      (quiet_env\<lparr>incoming := [Received (audio [2, 4, 6, 8])]\<rparr>)
      ''key'' ''calm piano'' [] cleared Map.empty))) = Some ''/tmp/tmpc4u.wav''"
  "disk (snd (generate_music_async (quiet_env\<lparr>incoming := [Received (audio [2, 4, 6, 8])]\<rparr>)
      ''key'' ''calm piano'' [] cleared Map.empty)) ''/tmp/tmpc4u.wav''
     = Some (finalized \<lparr>header = None, pcm = [2, 4, 6, 8]\<rparr>)"
  by (simp_all add: sample_defs task_defs get_audio_filepath_def)

lemma stopped_task:
  "fst (generate_music_async
      (quiet_env\<lparr>incoming := [Received (audio [2, 4, 6, 8]), Receive_raises Asyncio_CancelledError]\<rparr>)
      ''key'' ''calm piano'' [] cleared Map.empty) = Some Asyncio_CancelledError"
  "trace (snd (generate_music_async
      (quiet_env\<lparr>incoming := [Received (audio [2, 4, 6, 8]), Receive_raises Asyncio_CancelledError]\<rparr>)
      ''key'' ''calm piano'' [] cleared Map.empty)) =
   [Temp_created ''/tmp/tmpc4u.wav'',
    Task_report ''INFO'' ''Audio will be saved to: /tmp/tmpc4u.wav'',
    Client_new ''key'', Pyaudio_new, Device_open, Wave_open ''/tmp/tmpc4u.wav'',
    Session_enter, Set_weighted_prompts ''calm piano'', Session_play,
    Write_frames [2, 4, 6, 8], Device_write [2, 4, 6, 8], Session_exit,
    Wave_close, Device_stop, Device_close, Pyaudio_terminate]"
  by (simp_all add: sample_defs task_defs)

lemma modal_pass_through: "snd (modal w) = PASS_THROUGH \<Longrightarrow> fst (modal w) = w"
  by (auto simp: modal_def Let_def case_prod_beta split: option.splits if_splits)

lemma step_pointer:
  assumes "a = Tick \<Longrightarrow> snd (modal w) = PASS_THROUGH" and "composer4u_last_audio_path w = []"
  shows "composer4u_last_audio_path (step e w a) = []"
proof (cases a)
  case Submit
  show ?thesis
  proof (cases "submit e w")
    case (Pair w1 c)
    then show ?thesis
      using submit_accepted(3) [of e w w1] submit_rejected [of e w w1] Submit assms(2)
      by (cases c) auto
  qed
next
  case Tick
  with assms show ?thesis by (simp add: modal_pass_through)
next
  case Stop
  with assms(2) show ?thesis
    by (simp add: request_stop_def stop_execute_def cancel_current_def split: option.splits)
next
  case Operator_cancel
  with assms(2) show ?thesis
    by (simp add: cancel_operator_def cleanup_def cancel_current_def split: option.splits)
next
  case (Background e' c)
  with assms(2) show ?thesis by (simp add: background_task_keeps)
next
  case Reap
  with assms(2) show ?thesis by (simp add: reap_def)
qed (use assms(2) in simp_all)

lemma run_pointer:
  "in_flight e w acts \<Longrightarrow> composer4u_last_audio_path w = [] \<Longrightarrow>
   composer4u_last_audio_path (run_actions e w acts) = []"
proof (induction acts arbitrary: w)
  case Nil
  then show ?case by (simp add: run_actions_def)
next
  case (Cons a acts)
  have "composer4u_last_audio_path (step e w a) = []"
    using Cons.prems by (intro step_pointer) (simp_all split: if_splits)
  moreover have "in_flight e (step e w a) acts" using Cons.prems(1) by simp
  ultimately have "composer4u_last_audio_path (run_actions e (step e w a) acts) = []"
    by (rule Cons.IH [rotated])
  then show ?case by (simp add: run_actions_def)
qed

lemma filter_at_most_one:
  assumes "\<And>i. i < length xs \<Longrightarrow> P (xs ! i) \<Longrightarrow> i = k"
  shows "length (filter P xs) \<le> 1"
proof -
  have "{i. i < length xs \<and> P (xs ! i)} \<subseteq> {k}" using assms by auto
  then have "card {i. i < length xs \<and> P (xs ! i)} \<le> card {k}"
    by (intro card_mono) auto
  then show ?thesis by (simp add: length_filter_conv_card)
qed

lemma live_handles_le_1:
  assumes "only_current_live w"
  shows "live_handles w \<le> 1"
proof (cases "async_task_future w")
  case None
  with assms show ?thesis
    unfolding live_handles_def only_current_live_def
    by (intro filter_at_most_one [where k = 0]) auto
next
  case (Some k)
  with assms show ?thesis
    unfolding live_handles_def only_current_live_def
    by (intro filter_at_most_one [where k = k]) auto
qed

lemma is_done_cancel [simp]: "is_done (cancel_future f)"
  by (cases f) simp_all

lemma is_done_settle_mono: "is_done f \<Longrightarrow> is_done (settle x f)"
  by simp

lemma poll_all_done:
  assumes "only_current_live w" and "poll w" and "i < length (handles w)"
  shows "is_done (handles w ! i)"
  using assms
  by (auto simp: only_current_live_def poll_def current_future_def split: if_splits option.splits)

lemma step_only_current_live:
  assumes "only_current_live w"
  shows "only_current_live (step e w a)"
proof (cases a)
  case Submit
  show ?thesis
  proof (cases "submit e w")
    case (Pair w1 c)
    show ?thesis
    proof (cases c)
      case None
      with Pair Submit assms submit_rejected [of e w w1] show ?thesis
        by (simp add: only_current_live_def)
    next
      case (Some co)
      note a = submit_accepted [OF Pair [unfolded Some]]
      have "is_done (handles w ! i)" if "i < length (handles w)" for i
        using poll_all_done [OF assms a(15) that] .
      then show ?thesis
        using Pair Submit a(8,9) by (auto simp: only_current_live_def nth_append)
    qed
  qed
next
  case Tick
  show ?thesis
  proof (cases "snd (modal w) = PASS_THROUGH")
    case True
    with Tick assms show ?thesis by (simp add: modal_pass_through)
  next
    case False
    then obtain f where f: "current_future w = Some f" "is_done f"
      by (auto simp: modal_def split: option.splits if_splits)
    have "is_done (handles w ! i)" if "i < length (handles w)" for i
      using assms f that
      by (auto simp: only_current_live_def current_future_def split: option.splits if_splits)
    then show ?thesis
      using Tick modal_done(6) [OF f] by (simp add: only_current_live_def)
  qed
next
  case Stop
  with assms show ?thesis
    by (auto simp: request_stop_def stop_execute_def cancel_current_def only_current_live_def
        report_def nth_list_update split: option.splits)
next
  case Operator_cancel
  with assms show ?thesis
    by (auto simp: cancel_operator_def cleanup_def cancel_current_def only_current_live_def
        current_future_def report_def nth_list_update split: option.splits if_splits)
next
  case (Background e' c)
  with assms show ?thesis
    by (auto simp: background_task_def Let_def settle_at_def only_current_live_def
        nth_list_update)
next
  case Reap
  with assms show ?thesis by (simp add: reap_def only_current_live_def)
next
  case (Type_prompt s)
  with assms show ?thesis by (simp add: only_current_live_def)
next
  case (Choose_folder s)
  with assms show ?thesis by (simp add: only_current_live_def)
qed

lemma run_only_current_live:
  "only_current_live w \<Longrightarrow> only_current_live (run_actions e w acts)"
proof (induction acts arbitrary: w)
  case Nil
  then show ?case by (simp add: run_actions_def)
next
  case (Cons a acts)
  from Cons.IH [OF step_only_current_live [OF Cons.prems]]
  show ?case by (simp add: run_actions_def)
qed


subsection \<open>Counting the entries of the history\<close>

lemma cancel_operator_keeps:
  "composer4u_history (cancel_operator w) = composer4u_history w"
  "async_task_future (cancel_operator w) = None"
  by (simp_all add: cancel_operator_def cleanup_def cancel_current_def split: option.splits)

lemma request_stop_keeps:
  "composer4u_history (request_stop w) = composer4u_history w"
  "async_task_future (request_stop w) = async_task_future w"
  by (simp_all add: request_stop_def stop_execute_def cancel_current_def split: option.splits)

lemma current_future_None: "async_task_future w = None \<Longrightarrow> current_future w = None"
  by (simp add: current_future_def)

lemma accepted_Cons:
  "accepted e w (a # acts) = accepted e w [a] + accepted e (step e w a) acts"
  by (cases a) simp_all

lemma reconciled_Cons:
  "reconciled e w (a # acts) = reconciled e w [a] + reconciled e (step e w a) acts"
  by (cases a) simp_all

lemma modal_verdict:
  "snd (modal w) = FINISHED \<Longrightarrow> \<exists>f. current_future w = Some f \<and> is_done f"
  by (auto simp: modal_def split: option.splits if_splits)

lemma step_history_length:
  "length (composer4u_history (step e w a)) =
     length (composer4u_history w) + accepted e w [a] + reconciled e w [a]"
proof (cases a)
  case Submit
  show ?thesis
  proof (cases "submit e w")
    case (Pair w1 c)
    then show ?thesis
      using submit_accepted(1) [of e w w1] submit_rejected [of e w w1] Submit
      by (cases c) auto
  qed
next
  case Tick
  show ?thesis
  proof (cases "snd (modal w) = FINISHED")
    case True
    then obtain f where f: "current_future w = Some f" "is_done f"
      using modal_verdict by blast
    show ?thesis using Tick True modal_done(2) [OF f] by simp
  next
    case False
    then have "snd (modal w) = PASS_THROUGH" by (cases "snd (modal w)") simp_all
    then show ?thesis using Tick by (simp add: modal_pass_through)
  qed
next
  case Stop
  then show ?thesis by (simp add: request_stop_keeps)
next
  case Operator_cancel
  then show ?thesis by (simp add: cancel_operator_keeps)
next
  case (Background e' c)
  then show ?thesis by (simp add: background_task_keeps)
next
  case Reap
  then show ?thesis by (simp add: reap_def)
qed simp_all

lemma run_history_length:
  "length (composer4u_history (run_actions e w acts)) =
     length (composer4u_history w) + accepted e w acts + reconciled e w acts"
proof (induction acts arbitrary: w)
  case Nil
  show ?case by (simp add: run_actions_def)
next
  case (Cons a acts)
  have r: "run_actions e w (a # acts) = run_actions e (step e w a) acts"
    by (simp add: run_actions_def)
  show ?case
    unfolding r Cons.IH [of "step e w a"] step_history_length [of e w a]
      accepted_Cons [of e w a acts] reconciled_Cons [of e w a acts]
    by simp
qed

lemma step_reconciled_le:
  "reconciled e w [a] + (if async_task_future (step e w a) = None then 0 else 1)
     \<le> accepted e w [a] + (if async_task_future w = None then 0 else 1)"
proof (cases a)
  case Submit
  show ?thesis
  proof (cases "submit e w")
    case (Pair w1 c)
    then show ?thesis
      using submit_accepted(9) [of e w w1] submit_rejected [of e w w1] Submit
      by (cases c) auto
  qed
next
  case Tick
  show ?thesis
  proof (cases "snd (modal w) = FINISHED")
    case True
    then obtain f where f: "current_future w = Some f" "is_done f"
      using modal_verdict by blast
    then have "async_task_future w \<noteq> None"
      by (auto simp: current_future_def split: option.splits)
    then show ?thesis using Tick True modal_done(5) [OF f] by simp
  next
    case False
    then have "snd (modal w) = PASS_THROUGH" by (cases "snd (modal w)") simp_all
    then show ?thesis using Tick by (simp add: modal_pass_through)
  qed
next
  case Stop
  then show ?thesis by (simp add: request_stop_keeps)
next
  case Operator_cancel
  then show ?thesis by (simp add: cancel_operator_keeps)
next
  case (Background e' c)
  then show ?thesis by (simp add: background_task_keeps)
next
  case Reap
  then show ?thesis by (simp add: reap_def)
qed simp_all

lemma run_reconciled_le:
  "reconciled e w acts \<le> accepted e w acts + (if async_task_future w = None then 0 else 1)"
proof (induction acts arbitrary: w)
  case Nil
  show ?case by simp
next
  case (Cons a acts)
  have "reconciled e w (a # acts) = reconciled e w [a] + reconciled e (step e w a) acts"
    by (rule reconciled_Cons)
  also have "\<dots> \<le> reconciled e w [a] + (accepted e (step e w a) acts
      + (if async_task_future (step e w a) = None then 0 else 1))"
    using Cons.IH [of "step e w a"] by simp
  also have "\<dots> \<le> accepted e w [a] + (if async_task_future w = None then 0 else 1)
      + accepted e (step e w a) acts"
    using step_reconciled_le [of e w a] by simp
  also have "\<dots> = accepted e w (a # acts) + (if async_task_future w = None then 0 else 1)"
    by (simp add: accepted_Cons [of e w a acts])
  finally show ?case .
qed

subsection \<open>The tick after a Task that kept no path\<close>



lemma not_sublist_stopped:
  "\<not> sublist ''Error'' ''Generation stopped by user.''"
  "\<not> sublist ''No audio file'' ''Generation stopped by user.''"
  by (simp_all add: sublist_code prefix_code)

section \<open>The claims\<close>

subsection \<open>C1: a cancelled Task keeps its artifact\<close>

text \<open>
  C1. Whenever the try block of a Task ends cancelled (a \<^verbatim>\<open>CancelledError\<close> was
  raised at an \<^verbatim>\<open>await\<close>), the result container still maps
  \<^verbatim>\<open>'audio_filepath'\<close> to the path resolved at the start of the Task, the
  cancelled branch of \<^verbatim>\<open>modal\<close> reads that same path, no removal of the file is
  attempted, and, once the writer was opened, the file is on disk and holds exactly the
  bytes written; it is finalized when \<^verbatim>\<open>wav_writer.close()\<close> does not raise, and
  left as the last write left it when it does.
\<close>

theorem cancelled_task_keeps_artifact:
  assumes "task_outcome e k pt fo rc d = Cancelled"
  shows "get_audio_filepath (result_container (snd (generate_music_async e k pt fo rc d)))
           = Some (resolved_path e pt fo)
       \<and> fst (read_result Was_cancelled
            (w\<lparr>shared_container := result_container (snd (generate_music_async e k pt fo rc d))\<rparr>))
           = Some (resolved_path e pt fo)
       \<and> removals (trace (snd (generate_music_async e k pt fo rc d))) = []
       \<and> (if wav_writer (snd (generate_music_async e k pt fo rc d))
          then (case disk (snd (generate_music_async e k pt fo rc d)) (resolved_path e pt fo) of
                  None \<Rightarrow> False
                | Some f \<Rightarrow>
                    pcm f = written (trace (snd (generate_music_async e k pt fo rc d))) \<and>
                    (if wave_close_error e = None then f = finalized f
                     else f = empty_file \<or> f = finalized f))
          else True)"
  using generate_cancelled [OF assms] by (simp add: read_result_cancelled_path)

theorem cancelled_task_keeps_artifact_witness:
  "task_outcome
     (quiet_env\<lparr>incoming := [Received (audio [2, 4, 6, 8]), Receive_raises Asyncio_CancelledError]\<rparr>)
     ''key'' ''calm piano'' [] cleared Map.empty = Cancelled
   \<and> get_audio_filepath (result_container (snd (generate_music_async
        (quiet_env\<lparr>incoming := [Received (audio [2, 4, 6, 8]),
           Receive_raises Asyncio_CancelledError]\<rparr>)
        ''key'' ''calm piano'' [] cleared Map.empty))) = Some ''/tmp/tmpc4u.wav''
   \<and> removals (trace (snd (generate_music_async
        (quiet_env\<lparr>incoming := [Received (audio [2, 4, 6, 8]),
           Receive_raises Asyncio_CancelledError]\<rparr>)
        ''key'' ''calm piano'' [] cleared Map.empty))) = []"
proof -
  let ?e = "quiet_env\<lparr>incoming := [Received (audio [2, 4, 6, 8]),
     Receive_raises Asyncio_CancelledError]\<rparr>"
  have h: "task_outcome ?e ''key'' ''calm piano'' [] cleared Map.empty = Cancelled"
    by (simp add: task_outcome_def outcome_of_def sample_defs task_defs)
  have p: "resolved_path quiet_env ''calm piano'' [] = ''/tmp/tmpc4u.wav''"
    by (simp add: resolved_path_def quiet_env_def)
  show ?thesis
    using h cancelled_task_keeps_artifact [OF h, of studio] by (simp add: p)
qed

subsection \<open>C4: a chunk received after the stop request\<close>

text \<open>
  C4. The loop tests \<^verbatim>\<open>asyncio.current_task().cancelled()\<close> at each message to
  leave at the chunk boundary (line 405), but that call is false for as long as the
  coroutine runs, so the test never holds and the flag \<^verbatim>\<open>was_cancelled\<close> is never
  set. The user submits and asks to stop: the handle is cancelled at once and the Task
  has written nothing. The Task is then handed one more chunk before a
  \<^verbatim>\<open>CancelledError\<close> is raised at its next \<^verbatim>\<open>await\<close>. That chunk, received
  after the cancellation was requested, is written to the file and played; the Task ends
  cancelled by the exception, its flag still unset.
\<close>

theorem chunk_after_stop_is_processed:
  "current_future (run_actions
      (quiet_env\<lparr>incoming := [Received (audio [2, 4, 6, 8]), Receive_raises Asyncio_CancelledError]\<rparr>)
      studio [Submit, Stop]) = Some Was_cancelled
   \<and> background_trace (run_actions
      (quiet_env\<lparr>incoming := [Received (audio [2, 4, 6, 8]), Receive_raises Asyncio_CancelledError]\<rparr>)
      studio [Submit, Stop]) = []
   \<and> written (background_trace (generation
      (quiet_env\<lparr>incoming := [Received (audio [2, 4, 6, 8]), Receive_raises Asyncio_CancelledError]\<rparr>)
      True studio)) = [2, 4, 6, 8]
   \<and> played (background_trace (generation
      (quiet_env\<lparr>incoming := [Received (audio [2, 4, 6, 8]), Receive_raises Asyncio_CancelledError]\<rparr>)
      True studio)) = [2, 4, 6, 8]
   \<and> task_outcome
      (quiet_env\<lparr>incoming := [Received (audio [2, 4, 6, 8]), Receive_raises Asyncio_CancelledError]\<rparr>)
      ''key'' ''calm piano'' [] cleared Map.empty = Cancelled
   \<and> \<not> was_cancelled (snd (generate_music_async
      (quiet_env\<lparr>incoming := [Received (audio [2, 4, 6, 8]), Receive_raises Asyncio_CancelledError]\<rparr>)
      ''key'' ''calm piano'' [] cleared Map.empty))"
proof -
  let ?e = "quiet_env\<lparr>incoming := [Received (audio [2, 4, 6, 8]),
      Receive_raises Asyncio_CancelledError]\<rparr>"
  let ?w1 = "fst (submit ?e studio)"
  let ?w3 = "background_task ?e \<lparr>co_api_key = ''key'', co_prompt = ''calm piano'',
      co_output_folder = [], co_handle = 0\<rparr> (request_stop ?w1)"
  note a = submit_accepted [OF studio_submit [of "[Received (audio [2, 4, 6, 8]),
      Receive_raises Asyncio_CancelledError]"]]
  note g = generation_run [OF studio_submit, of "[Received (audio [2, 4, 6, 8]),
      Receive_raises Asyncio_CancelledError]" True, simplified]
  have st: "handles studio = []" "background_trace studio = []" "files studio = Map.empty"
    by (simp_all add: studio_def)
  note s = request_stop_pending [OF a(9) a(8) refl]
  have r: "run_actions ?e studio [Submit, Stop] = request_stop ?w1"
    by (simp add: run_actions_def)
  have cur: "current_future (request_stop ?w1) = Some Was_cancelled"
    using s(1,2) by (simp add: current_future_def st)
  have bt: "background_trace (request_stop ?w1) = []"
    using s(8) a(7) by (simp add: st)
  have cur3: "current_future ?w3 = Some Was_cancelled"
    using g(2) by (simp add: st)
  have d: "is_done Was_cancelled" by simp
  have tr: "background_trace (generation ?e True studio) = background_trace ?w3"
    unfolding g(1) using cur3
    by (simp add: modal_def cleanup_def Let_def read_result_def final_check_def report_def
        case_prod_beta)
  have tr3: "background_trace ?w3 = trace (snd (generate_music_async ?e ''key'' ''calm piano''
      [] cleared Map.empty))"
    using g(8) by (simp add: st)
  have o: "task_outcome ?e ''key'' ''calm piano'' [] cleared Map.empty = Cancelled"
    by (simp add: task_outcome_def outcome_of_def sample_defs task_defs)
  have f: "\<not> was_cancelled (snd (generate_music_async ?e ''key'' ''calm piano'' [] cleared
      Map.empty))"
    by (simp add: sample_defs task_defs)
  show ?thesis
    unfolding r tr tr3 using cur bt o f by (simp add: stopped_task(2))
qed

subsection \<open>C6: an error of the playback device\<close>

text \<open>
  C6, as stated, fails: \<^verbatim>\<open>output_stream.write(chunk)\<close> stands unguarded in the loop,
  so an error of the device leaves the loop like any other error. With a device whose
  write fails on the first chunk the Task ends Failed and the artifact is removed.
\<close>

theorem device_error_counterexample:
  "task_outcome
     (quiet_env\<lparr>incoming := [Received ((audio [2, 4, 6, 8])
        \<lparr>device_write_error := Some (Error ''Stream closed'')\<rparr>)]\<rparr>)
     ''key'' ''calm piano'' [] cleared Map.empty = Failed ''Stream closed''
   \<and> disk (snd (generate_music_async
       (quiet_env\<lparr>incoming := [Received ((audio [2, 4, 6, 8])
          \<lparr>device_write_error := Some (Error ''Stream closed'')\<rparr>)]\<rparr>)
       ''key'' ''calm piano'' [] cleared Map.empty)) ''/tmp/tmpc4u.wav'' = None
   \<and> removals (trace (snd (generate_music_async
       (quiet_env\<lparr>incoming := [Received ((audio [2, 4, 6, 8])
          \<lparr>device_write_error := Some (Error ''Stream closed'')\<rparr>)]\<rparr>)
       ''key'' ''calm piano'' [] cleared Map.empty))) = [''/tmp/tmpc4u.wav'']"
  by (simp add: task_outcome_def outcome_of_def sample_defs task_defs)

text \<open>
  C6, amended. The chunk is appended to the file before the device is tried, so a device
  error does not lose it from the writer; but the error is not contained: the Task ends
  Failed with that error, nothing more is played, the result's path is cleared and the
  artifact is removed (when the removal is not refused). The coroutine ends with the
  device error, unless one of the four calls of the \<^verbatim>\<open>finally\<close> block raises: the
  first of them that does ends the block and its exception takes the place of the device
  error. The stream before the chunk is one on which the Task would have succeeded, so
  leaving the session does not raise here.
\<close>

theorem device_error_fails_task:
  assumes S: "task_outcome (e\<lparr>incoming := pre\<rparr>) k pt fo rc d = Succeeded"
    and m: "msg m = Server_content (c # cs)"
      "writeframes_error m = None" "device_write_error m = Some (Error r)"
    and dev: "pyaudio_present e"
  shows "task_outcome (e\<lparr>incoming := pre @ Received m # rest\<rparr>) k pt fo rc d = Failed r
    \<and> fst (generate_music_async (e\<lparr>incoming := pre @ Received m # rest\<rparr>) k pt fo rc d)
        = (case first_error [wave_close_error e, stop_stream_error e, device_close_error e,
                             terminate_error e] of
             None \<Rightarrow> Some (Error r)
           | Some y \<Rightarrow> Some y)
    \<and> written (trace (snd (generate_music_async
          (e\<lparr>incoming := pre @ Received m # rest\<rparr>) k pt fo rc d)))
        = written (trace (snd (generate_music_async (e\<lparr>incoming := pre\<rparr>) k pt fo rc d))) @ c
    \<and> played (trace (snd (generate_music_async
          (e\<lparr>incoming := pre @ Received m # rest\<rparr>) k pt fo rc d)))
        = played (trace (snd (generate_music_async (e\<lparr>incoming := pre\<rparr>) k pt fo rc d)))
    \<and> get_audio_filepath (result_container (snd (generate_music_async
          (e\<lparr>incoming := pre @ Received m # rest\<rparr>) k pt fo rc d))) = None
    \<and> (if resolved_path e pt fo \<noteq> [] \<and> \<not> remove_refused e
        then disk (snd (generate_music_async
               (e\<lparr>incoming := pre @ Received m # rest\<rparr>) k pt fo rc d)) (resolved_path e pt fo)
             = None
        else True)"
proof -
  let ?full = "e\<lparr>incoming := pre @ Received m # rest\<rparr>"
  let ?short = "e\<lparr>incoming := pre\<rparr>"
  from S have "outcome_of (try_block ?short k pt fo (start rc d)) = Succeeded"
    by (simp add: task_outcome_def)
  note D = succeeded_decomp [OF this]
  define ts where "ts = loop_entry e k pt fo (start rc d)"
  define tl where "tl = snd (receive_loop pre ts)"
  have L: "receive_loop pre ts = (None, tl)"
    using D(2) by (simp add: ts_def tl_def prod_eq_iff)
  have nc: "\<not> was_cancelled tl"
    using D(3) by (simp add: ts_def tl_def)
  have T: "try_block (e\<lparr>incoming := ys\<rparr>) k pt fo (start rc d) =
           and_then (fst (receive_loop ys ts), emit Session_exit (snd (receive_loop ys ts)))
             after_loop" for ys
    using D(4) [of ys] by (simp add: ts_def)
  have P: "fst (prepare e k pt fo (start rc d)) = None" by (rule D(1))
  have os: "output_stream tl"
    using prepare_flags(1) [OF P] dev L receive_loop_keeps(2) [of pre ts]
    by (simp add: ts_def loop_entry_def session_start_flags emit_def)
  have pa: "p_audio tl"
    using prepare_flags(2) [OF P] dev L receive_loop_keeps(3) [of pre ts]
    by (simp add: ts_def loop_entry_def session_start_flags emit_def)
  have wr: "wav_writer tl"
    using P prepare_run [of e pt fo k rc d] L receive_loop_keeps(1) [of pre ts]
    by (simp add: ts_def loop_entry_def session_start_keeps emit_def)
  have full: "receive_loop (pre @ Received m # rest) ts = (Some (Error r), writeframes c tl)"
    using loop_continue [OF L nc] loop_device_error [OF m os] by simp
  have Tf: "try_block ?full k pt fo (start rc d) =
      and_then (Some (Error r), emit Session_exit (writeframes c tl)) after_loop"
    using T [of "pre @ Received m # rest"] full by simp
  have Ts: "try_block ?short k pt fo (start rc d) =
      and_then (None, emit Session_exit tl) after_loop"
    using T [of pre] L by simp
  have out: "task_outcome ?full k pt fo rc d = Failed r"
    unfolding task_outcome_def Tf by (simp add: outcome_of_def and_then_def)
  have w1: "written (trace (snd (generate_music_async ?full k pt fo rc d)))
      = written (trace tl) @ c"
    and p1: "played (trace (snd (generate_music_async ?full k pt fo rc d))) = played (trace tl)"
    using generate_trace [OF Tf] by (simp_all add: writeframes_flags)
  have w0: "written (trace (snd (generate_music_async ?short k pt fo rc d))) = written (trace tl)"
    and p0: "played (trace (snd (generate_music_async ?short k pt fo rc d))) = played (trace tl)"
    using generate_trace [OF Ts] by simp_all
  note F = generate_failed [OF out]
  have fl: "wav_writer (snd (try_block ?full k pt fo (start rc d)))"
    "output_stream (snd (try_block ?full k pt fo (start rc d)))"
    "p_audio (snd (try_block ?full k pt fo (start rc d)))"
    unfolding Tf using os pa wr
    by (simp_all add: and_then_def emit_def writeframes_keeps writeframes_flags)
  have x: "fst (generate_music_async ?full k pt fo rc d)
      = (case first_error [wave_close_error e, stop_stream_error e, device_close_error e,
                           terminate_error e] of
           None \<Rightarrow> Some (Error r)
         | Some y \<Rightarrow> Some y)"
    using F [THEN conjunct1] by (simp add: generate_fst [of ?full] fl split: option.splits)
  show ?thesis
    using out x w1 p1 w0 p0 F
    by (auto simp: get_audio_filepath_def split: if_splits)
qed

theorem device_error_fails_task_witness:
  "task_outcome (quiet_env\<lparr>incoming := [Received (audio [2, 4, 6, 8])]\<rparr>)
      ''key'' ''calm piano'' [] cleared Map.empty = Succeeded
   \<and> pyaudio_present quiet_env
   \<and> task_outcome
       (quiet_env\<lparr>incoming := [Received (audio [2, 4, 6, 8]),
          Received ((audio [5, 6, 7, 8])\<lparr>device_write_error := Some (Error ''Stream closed'')\<rparr>),
          Received (audio [7, 7, 7, 7])]\<rparr>)
       ''key'' ''calm piano'' [] cleared Map.empty = Failed ''Stream closed''
   \<and> fst (generate_music_async
       (quiet_env\<lparr>incoming := [Received (audio [2, 4, 6, 8]),
          Received ((audio [5, 6, 7, 8])\<lparr>device_write_error := Some (Error ''Stream closed'')\<rparr>),
          Received (audio [7, 7, 7, 7])]\<rparr>)
       ''key'' ''calm piano'' [] cleared Map.empty) = Some (Error ''Stream closed'')
   \<and> written (trace (snd (generate_music_async
       (quiet_env\<lparr>incoming := [Received (audio [2, 4, 6, 8]),
          Received ((audio [5, 6, 7, 8])\<lparr>device_write_error := Some (Error ''Stream closed'')\<rparr>),
          Received (audio [7, 7, 7, 7])]\<rparr>)
       ''key'' ''calm piano'' [] cleared Map.empty))) = [2, 4, 6, 8, 5, 6, 7, 8]
   \<and> played (trace (snd (generate_music_async
       (quiet_env\<lparr>incoming := [Received (audio [2, 4, 6, 8]),
          Received ((audio [5, 6, 7, 8])\<lparr>device_write_error := Some (Error ''Stream closed'')\<rparr>),
          Received (audio [7, 7, 7, 7])]\<rparr>)
       ''key'' ''calm piano'' [] cleared Map.empty))) = [2, 4, 6, 8]"
proof -
  let ?pre = "[Received (audio [2, 4, 6, 8])]"
  let ?m = "(audio [5, 6, 7, 8])\<lparr>device_write_error := Some (Error ''Stream closed'')\<rparr>"
  have h: "task_outcome (quiet_env\<lparr>incoming := ?pre\<rparr>) ''key'' ''calm piano'' [] cleared
      Map.empty = Succeeded"
    by (simp add: task_outcome_def outcome_of_def sample_defs task_defs)
  have m: "msg ?m = Server_content ([5, 6, 7, 8] # [])"
    "writeframes_error ?m = None" "device_write_error ?m = Some (Error ''Stream closed'')"
    by (simp_all add: audio_def)
  have q: "pyaudio_present quiet_env" "wave_close_error quiet_env = None"
    "stop_stream_error quiet_env = None" "device_close_error quiet_env = None"
    "terminate_error quiet_env = None"
    by (simp_all add: quiet_env_def)
  have b: "written (trace (snd (generate_music_async (quiet_env\<lparr>incoming := ?pre\<rparr>)
      ''key'' ''calm piano'' [] cleared Map.empty))) = [2, 4, 6, 8]"
    "played (trace (snd (generate_music_async (quiet_env\<lparr>incoming := ?pre\<rparr>)
      ''key'' ''calm piano'' [] cleared Map.empty))) = [2, 4, 6, 8]"
    by (simp_all add: sample_defs task_defs)
  show ?thesis
    using h q(1) device_error_fails_task [OF h m q(1), of "[Received (audio [7, 7, 7, 7])]"]
    by (simp add: b q)
qed

subsection \<open>C2: a failed Task removes its artifact\<close>




subsection \<open>C8: the entries of the history\<close>

text \<open>
  C8, as stated, fails: an accepted submission whose handle is dropped before a tick
  finds it done adds its \<^verbatim>\<open>Prompt:\<close> entry only. The host cancels the modal
  operator after a submission: \<^verbatim>\<open>cancel\<close> cancels the handle and clears the class
  attribute; the Task ends cancelled, and the ticks that follow find no handle. The
  history holds one entry for that submission, and stays so.
\<close>

theorem dropped_handle_one_entry_counterexample:
  "snd (submit
      (quiet_env\<lparr>incoming := [Received (audio [2, 4, 6, 8]), Receive_raises Asyncio_CancelledError]\<rparr>)
      studio) = Some \<lparr>co_api_key = ''key'', co_prompt = ''calm piano'', co_output_folder = [],
                      co_handle = 0\<rparr>
   \<and> task_outcome
      (quiet_env\<lparr>incoming := [Received (audio [2, 4, 6, 8]), Receive_raises Asyncio_CancelledError]\<rparr>)
      ''key'' ''calm piano'' [] cleared Map.empty = Cancelled
   \<and> composer4u_history (run_actions
      (quiet_env\<lparr>incoming := [Received (audio [2, 4, 6, 8]), Receive_raises Asyncio_CancelledError]\<rparr>)
      studio
      [Submit, Operator_cancel,
       Background
         (quiet_env\<lparr>incoming := [Received (audio [2, 4, 6, 8]),
            Receive_raises Asyncio_CancelledError]\<rparr>)
         \<lparr>co_api_key = ''key'', co_prompt = ''calm piano'', co_output_folder = [], co_handle = 0\<rparr>,
       Tick]) = [''Prompt: calm piano'']
   \<and> snd (modal (run_actions
      (quiet_env\<lparr>incoming := [Received (audio [2, 4, 6, 8]), Receive_raises Asyncio_CancelledError]\<rparr>)
      studio
      [Submit, Operator_cancel,
       Background
         (quiet_env\<lparr>incoming := [Received (audio [2, 4, 6, 8]),
            Receive_raises Asyncio_CancelledError]\<rparr>)
         \<lparr>co_api_key = ''key'', co_prompt = ''calm piano'', co_output_folder = [], co_handle = 0\<rparr>,
       Tick])) = PASS_THROUGH"
proof -
  let ?xs = "[Received (audio [2, 4, 6, 8]), Receive_raises Asyncio_CancelledError]"
  let ?e = "quiet_env\<lparr>incoming := ?xs\<rparr>"
  let ?c = "\<lparr>co_api_key = ''key'', co_prompt = ''calm piano'', co_output_folder = [],
      co_handle = 0\<rparr>"
  let ?w1 = "fst (submit ?e studio)"
  let ?w3 = "background_task ?e ?c (cancel_operator ?w1)"
  note a = submit_accepted [OF studio_submit [of ?xs]]
  have st: "composer4u_history studio = []" by (simp add: studio_def)
  have s: "snd (submit ?e studio) = Some ?c"
    using studio_submit [of ?xs] by (simp add: prod_eq_iff)
  have o: "task_outcome ?e ''key'' ''calm piano'' [] cleared Map.empty = Cancelled"
    by (simp add: task_outcome_def outcome_of_def sample_defs task_defs)
  have n: "current_future ?w3 = None"
    by (rule current_future_None) (simp add: background_task_keeps cancel_operator_keeps)
  have m: "modal ?w3 = (?w3, PASS_THROUGH)" by (rule modal_pending(1) [OF n])
  have r: "run_actions ?e studio [Submit, Operator_cancel, Background ?e ?c, Tick] = ?w3"
    by (simp add: run_actions_def m)
  have h: "composer4u_history ?w3 = [''Prompt: calm piano'']"
    using a(1) by (simp add: background_task_keeps cancel_operator_keeps st)
  show ?thesis
    unfolding r using s o h m by simp
qed

text \<open>
  C8, amended. Along every run of the process, each accepted submission adds one entry to
  the history and each tick that reconciles a handle adds one; nothing else adds an entry
  and no action removes or rewrites one, so the old history is a prefix of the new. From a
  state without a handle no more ticks reconcile than submissions were accepted. A
  generation that runs from its submission to the tick that reconciles it adds exactly two
  entries, the \<^verbatim>\<open>Prompt:\<close> entry and one \<^verbatim>\<open>Composer4U:\<close> entry, whatever the
  Task does and whether or not a stop was requested.
\<close>

theorem history_entries_counted:
  assumes "async_task_future w = None"
  shows "length (composer4u_history (run_actions e w acts)) =
           length (composer4u_history w) + accepted e w acts + reconciled e w acts
       \<and> reconciled e w acts \<le> accepted e w acts
       \<and> prefix (composer4u_history w) (composer4u_history (run_actions e w acts))
       \<and> (case submit e w of
            (w1, None) \<Rightarrow> composer4u_history w1 = composer4u_history w
          | (w1, Some c) \<Rightarrow>
              (\<exists>m. composer4u_history (generation e stop w) =
                 composer4u_history w @ [''Prompt: '' @ co_prompt c, ''Composer4U: '' @ m]))"
proof -
  have 1: "reconciled e w acts \<le> accepted e w acts"
    using run_reconciled_le [of e w acts] assms by simp
  have 2: "\<exists>m. composer4u_history (generation e stop w) =
      composer4u_history w @ [''Prompt: '' @ co_prompt c, ''Composer4U: '' @ m]"
    if acc: "submit e w = (w1, Some c)" for w1 c
  proof -
    note g = generation_run [OF acc, of stop]
    have "composer4u_history (generation e stop w) =
        composer4u_history w @ [''Prompt: '' @ co_prompt c] @
          [''Composer4U: '' @ fst (snd (read_result
             (settle (fst (generate_music_async e (co_api_key c) (co_prompt c)
                (co_output_folder c) cleared (files w)))
                (if stop then Was_cancelled else Pending))
             (background_task e c (if stop then request_stop w1 else w1))))]"
      unfolding g(1) by (simp only: modal_done(2) [OF g(2) settle_done] g(5) append_assoc)
    then show ?thesis by simp
  qed
  have 3: "composer4u_history w1 = composer4u_history w" if "submit e w = (w1, None)" for w1
    using submit_rejected [OF that] by simp
  show ?thesis
    using 1 2 3 run_history_length [of e w acts] run_history_prefix [of w e acts]
    by (auto split: prod.splits option.splits)
qed

theorem history_entries_counted_witness:
  "async_task_future studio = None
   \<and> accepted quiet_env studio [Submit, Stop, Tick] = 1
   \<and> reconciled quiet_env studio [Submit, Stop, Tick] = 1
   \<and> length (composer4u_history (run_actions quiet_env studio [Submit, Stop, Tick])) = 2"
proof -
  have q: "quiet_env\<lparr>incoming := []\<rparr> = quiet_env" by (simp add: quiet_env_def)
  let ?w1 = "fst (submit quiet_env studio)"
  note sub = studio_submit [of "[]", unfolded q]
  note a = submit_accepted [OF sub]
  have st: "async_task_future studio = None" "handles studio = []"
    "composer4u_history studio = []"
    by (simp_all add: studio_def)
  have s: "snd (submit quiet_env studio) \<noteq> None"
    using sub by (simp add: prod_eq_iff)
  note rs = request_stop_pending [OF a(9) a(8) refl]
  have cur: "current_future (request_stop ?w1) = Some Was_cancelled"
    using rs(1,2) by (simp add: current_future_def st)
  have d: "is_done Was_cancelled" by simp
  have f: "snd (modal (request_stop ?w1)) = FINISHED"
    by (rule modal_done(1) [OF cur d])
  have ac: "accepted quiet_env studio [Submit, Stop, Tick] = 1"
    using s by simp
  have rc: "reconciled quiet_env studio [Submit, Stop, Tick] = 1"
    using f by simp
  show ?thesis
    using st(1) ac rc history_entries_counted [OF st(1), of quiet_env "[Submit, Stop, Tick]"]
    by (simp add: st)
qed

subsection \<open>C7: what is sent to the timeline\<close>

text \<open>
  C7, as stated, fails for the outcome Succeeded: \<^verbatim>\<open>modal\<close> calls
  \<^verbatim>\<open>bpy.ops.composer4u.add_audio_to_timeline\<close> in the branch of a cancelled handle
  only. A generation that succeeds with a non-empty artifact sets the last audio path and
  sends nothing to the timeline.
\<close>

theorem success_not_notified_counterexample:
  "task_outcome (quiet_env\<lparr>incoming := [Received (audio [2, 4, 6, 8])]\<rparr>)
      ''key'' ''calm piano'' [] cleared Map.empty = Succeeded
   \<and> files (generation (quiet_env\<lparr>incoming := [Received (audio [2, 4, 6, 8])]\<rparr>) False studio)
        ''/tmp/tmpc4u.wav'' = Some (finalized \<lparr>header = None, pcm = [2, 4, 6, 8]\<rparr>)
   \<and> composer4u_last_audio_path
        (generation (quiet_env\<lparr>incoming := [Received (audio [2, 4, 6, 8])]\<rparr>) False studio)
       = ''/tmp/tmpc4u.wav''
   \<and> timeline_calls
        (generation (quiet_env\<lparr>incoming := [Received (audio [2, 4, 6, 8])]\<rparr>) False studio) = []"
proof -
  let ?e = "quiet_env\<lparr>incoming := [Received (audio [2, 4, 6, 8])]\<rparr>"
  let ?w3 = "background_task ?e \<lparr>co_api_key = ''key'', co_prompt = ''calm piano'',
      co_output_folder = [], co_handle = 0\<rparr> (fst (submit ?e studio))"
  note g = generation_run [OF studio_submit, of "[Received (audio [2, 4, 6, 8])]" False,
      simplified]
  have st: "files studio = Map.empty" "timeline_calls studio = []"
    by (simp_all add: studio_def)
  have o: "task_outcome ?e ''key'' ''calm piano'' [] cleared Map.empty = Succeeded"
    by (simp add: task_outcome_def outcome_of_def sample_defs task_defs)
  have cur: "current_future ?w3 = Some Returned"
    using g(2) played_task(1) by (simp add: st)
  have con: "get_audio_filepath (shared_container ?w3) = Some ''/tmp/tmpc4u.wav''"
    using g(3) played_task(2) by (simp add: st)
  have fl: "files ?w3 ''/tmp/tmpc4u.wav'' = Some (finalized \<lparr>header = None, pcm = [2, 4, 6, 8]\<rparr>)"
    using g(4) played_task(3) by (simp add: st)
  have us: "usable ?w3 (Some ''/tmp/tmpc4u.wav'')"
    by (simp add: usable_def fl getsize_finalized)
  have d: "is_done Returned" by simp
  note mt = modal_timeline [OF cur d]
  note md = modal_done [OF cur d]
  have 1: "timeline_calls (generation ?e False studio) = []"
    using mt g(1) g(7) by (simp add: st)
  have 2: "composer4u_last_audio_path (generation ?e False studio) = ''/tmp/tmpc4u.wav''"
    using mt g(1) us by (simp add: con path_of_def)
  have 3: "files (generation ?e False studio) ''/tmp/tmpc4u.wav''
      = Some (finalized \<lparr>header = None, pcm = [2, 4, 6, 8]\<rparr>)"
    using md(7) g(1) fl by simp
  show ?thesis using o 1 2 3 by simp
qed

text \<open>
  C7, amended. The reconciling tick sends the artifact path to the timeline exactly once
  when the handle was cancelled and the artifact exists and is not empty, and not at all
  otherwise; on a returned handle with such an artifact it sets the last audio path only
  (the panel then offers the insertion as a button).
\<close>

theorem timeline_notified_on_stop_only:
  assumes "current_future w = Some f" and "is_done f"
  shows "timeline_calls (fst (modal w)) =
           timeline_calls w @
             (if f = Was_cancelled \<and> usable w (get_audio_filepath (shared_container w))
              then [path_of (get_audio_filepath (shared_container w))] else [])
       \<and> (if usable w (get_audio_filepath (shared_container w))
              \<and> (f = Returned \<or> f = Was_cancelled)
          then composer4u_last_audio_path (fst (modal w))
                 = path_of (get_audio_filepath (shared_container w))
          else True)"
  using modal_timeline [OF assms] .

theorem timeline_notified_on_stop_only_witness:
  "current_future stopped_studio = Some Was_cancelled \<and> is_done Was_cancelled
   \<and> timeline_calls (fst (modal stopped_studio)) = [''/tmp/tmpc4u.wav'']
   \<and> composer4u_last_audio_path (fst (modal stopped_studio)) = ''/tmp/tmpc4u.wav''"
proof -
  have c: "current_future stopped_studio = Some Was_cancelled"
    by (simp add: current_future_def stopped_studio_def studio_def)
  have d: "is_done Was_cancelled" by simp
  have a: "get_audio_filepath (shared_container stopped_studio) = Some ''/tmp/tmpc4u.wav''"
    "timeline_calls stopped_studio = []"
    by (simp_all add: stopped_studio_def studio_def get_audio_filepath_def)
  have u: "usable stopped_studio (Some ''/tmp/tmpc4u.wav'')"
    by (simp add: usable_def stopped_studio_def studio_def getsize_finalized)
  show ?thesis
    using c d timeline_notified_on_stop_only [OF c d] by (simp add: a u path_of_def)
qed

subsection \<open>C9: a stop before the first chunk\<close>

text \<open>
  C9. The user stops a generation while the Task awaits its first message: no chunk was
  received, the Task ends Cancelled, and its \<^verbatim>\<open>finally\<close> block closes the writer,
  which writes the header of a sound file with no frame. \<^verbatim>\<open>modal\<close> tests the size of
  the file in bytes, which is 44, not its frames: it sets the last audio path to the
  empty artifact and sends it to the timeline, where the claim has the pointer cleared
  and no notification.
\<close>

theorem stop_before_first_chunk_sets_pointer:
  "task_outcome (quiet_env\<lparr>incoming := [Receive_raises Asyncio_CancelledError]\<rparr>)
      ''key'' ''calm piano'' [] cleared Map.empty = Cancelled
   \<and> written (trace (snd (generate_music_async
        (quiet_env\<lparr>incoming := [Receive_raises Asyncio_CancelledError]\<rparr>)
        ''key'' ''calm piano'' [] cleared Map.empty))) = []
   \<and> files (generation (quiet_env\<lparr>incoming := [Receive_raises Asyncio_CancelledError]\<rparr>)
        True studio) ''/tmp/tmpc4u.wav'' = Some (finalized empty_file)
   \<and> nframes (finalized empty_file) = 0 \<and> getsize (finalized empty_file) = 44
   \<and> composer4u_last_audio_path
        (generation (quiet_env\<lparr>incoming := [Receive_raises Asyncio_CancelledError]\<rparr>) True studio)
       = ''/tmp/tmpc4u.wav''
   \<and> timeline_calls
        (generation (quiet_env\<lparr>incoming := [Receive_raises Asyncio_CancelledError]\<rparr>) True studio)
       = [''/tmp/tmpc4u.wav'']"
proof -
  let ?e = "quiet_env\<lparr>incoming := [Receive_raises Asyncio_CancelledError]\<rparr>"
  let ?w3 = "background_task ?e \<lparr>co_api_key = ''key'', co_prompt = ''calm piano'',
      co_output_folder = [], co_handle = 0\<rparr> (request_stop (fst (submit ?e studio)))"
  note g = generation_run [OF studio_submit, of "[Receive_raises Asyncio_CancelledError]" True,
      simplified]
  have st: "files studio = Map.empty" "timeline_calls studio = []"
    by (simp_all add: studio_def)
  have o: "task_outcome ?e ''key'' ''calm piano'' [] cleared Map.empty = Cancelled"
    by (simp add: task_outcome_def outcome_of_def sample_defs task_defs)
  have cur: "current_future ?w3 = Some Was_cancelled"
    using g(2) by (simp add: st)
  have con: "get_audio_filepath (shared_container ?w3) = Some ''/tmp/tmpc4u.wav''"
    using g(3) stop_env_task(2) by (simp add: st)
  have fl: "files ?w3 ''/tmp/tmpc4u.wav'' = Some (finalized empty_file)"
    using g(4) stop_env_task(3) by (simp add: st)
  have us: "usable ?w3 (Some ''/tmp/tmpc4u.wav'')"
    by (simp add: usable_def fl getsize_finalized)
  have d: "is_done Was_cancelled" by simp
  note mt = modal_timeline [OF cur d]
  note md = modal_done [OF cur d]
  have 1: "timeline_calls (generation ?e True studio) = [''/tmp/tmpc4u.wav'']"
    using mt g(1) g(7) us by (simp add: con st path_of_def)
  have 2: "composer4u_last_audio_path (generation ?e True studio) = ''/tmp/tmpc4u.wav''"
    using mt g(1) us by (simp add: con path_of_def)
  have 3: "files (generation ?e True studio) ''/tmp/tmpc4u.wav'' = Some (finalized empty_file)"
    using md(7) g(1) fl by simp
  show ?thesis
    using o 1 2 3 stop_env_task(4)
    by (simp add: nframes_finalized getsize_finalized empty_file_def)
qed

subsection \<open>C5: resources are released when the Task ends\<close>

text \<open>
  C5. Two runs in which the resources are not released before the handle reports
  completion. First, the handle is the future that
  \<^verbatim>\<open>COMPOSER4U_OT_StopGeneration.execute\<close> cancels: \<^verbatim>\<open>cancel()\<close> marks it done
  at once, so after a submission and a stop request \<^verbatim>\<open>modal\<close> finds
  \<^verbatim>\<open>future.done()\<close> and finishes while the Task of that handle has released
  nothing; its \<^verbatim>\<open>Wave_close\<close> is still to come. Second, the calls of the
  \<^verbatim>\<open>finally\<close> block are not guarded: on a Task that succeeds, a
  \<^verbatim>\<open>wav_writer.close()\<close> that raises (the disk is full) ends the block, the device is
  neither stopped nor closed and the audio system is not terminated, and the coroutine
  ends with that exception, the writer, the device and the audio system still open.
\<close>

theorem release_not_before_completion:
  "current_future (run_actions
      (quiet_env\<lparr>incoming := [Received (audio [2, 4, 6, 8]), Receive_raises Asyncio_CancelledError]\<rparr>)
      studio [Submit, Stop]) = Some Was_cancelled
   \<and> is_done Was_cancelled
   \<and> snd (modal (run_actions
      (quiet_env\<lparr>incoming := [Received (audio [2, 4, 6, 8]), Receive_raises Asyncio_CancelledError]\<rparr>)
      studio [Submit, Stop])) = FINISHED
   \<and> background_trace (run_actions
      (quiet_env\<lparr>incoming := [Received (audio [2, 4, 6, 8]), Receive_raises Asyncio_CancelledError]\<rparr>)
      studio [Submit, Stop]) = []
   \<and> Wave_close \<in> set (trace (snd (generate_music_async
      (quiet_env\<lparr>incoming := [Received (audio [2, 4, 6, 8]), Receive_raises Asyncio_CancelledError]\<rparr>)
      ''key'' ''calm piano'' [] cleared Map.empty)))
   \<and> task_outcome
      (quiet_env\<lparr>incoming := [Received (audio [2, 4, 6, 8])],
         wave_close_error := Some (Error ''[Errno 28] No space left on device'')\<rparr>)
      ''key'' ''calm piano'' [] cleared Map.empty = Succeeded
   \<and> fst (generate_music_async
      (quiet_env\<lparr>incoming := [Received (audio [2, 4, 6, 8])],
         wave_close_error := Some (Error ''[Errno 28] No space left on device'')\<rparr>)
      ''key'' ''calm piano'' [] cleared Map.empty)
       = Some (Error ''[Errno 28] No space left on device'')
   \<and> protocol released (trace (snd (generate_music_async
      (quiet_env\<lparr>incoming := [Received (audio [2, 4, 6, 8])],
         wave_close_error := Some (Error ''[Errno 28] No space left on device'')\<rparr>)
      ''key'' ''calm piano'' [] cleared Map.empty)))
       = Some \<lparr>writer_open = True, device_open = True, pyaudio_live = True,
               session_open = False\<rparr>"
proof -
  let ?e = "quiet_env\<lparr>incoming := [Received (audio [2, 4, 6, 8]),
      Receive_raises Asyncio_CancelledError]\<rparr>"
  let ?e2 = "quiet_env\<lparr>incoming := [Received (audio [2, 4, 6, 8])],
      wave_close_error := Some (Error ''[Errno 28] No space left on device'')\<rparr>"
  let ?w1 = "fst (submit ?e studio)"
  note a = submit_accepted [OF studio_submit [of "[Received (audio [2, 4, 6, 8]),
      Receive_raises Asyncio_CancelledError]"]]
  have hs: "handles studio = []" "background_trace studio = []" by (simp_all add: studio_def)
  note s = request_stop_pending [OF a(9) a(8) refl]
  have r: "run_actions ?e studio [Submit, Stop] = request_stop ?w1"
    by (simp add: run_actions_def)
  have cur: "current_future (request_stop ?w1) = Some Was_cancelled"
    using s(1,2) by (simp add: current_future_def hs)
  have d: "is_done Was_cancelled" by simp
  have bt: "background_trace (request_stop ?w1) = []"
    using s(8) a(7) by (simp add: hs)
  have o: "task_outcome ?e2 ''key'' ''calm piano'' [] cleared Map.empty = Succeeded"
    by (simp add: task_outcome_def outcome_of_def sample_defs task_defs)
  have x: "fst (generate_music_async ?e2 ''key'' ''calm piano'' [] cleared Map.empty)
      = Some (Error ''[Errno 28] No space left on device'')"
    by (simp add: sample_defs task_defs)
  have p: "protocol released (trace (snd (generate_music_async ?e2 ''key'' ''calm piano'' []
      cleared Map.empty)))
      = Some \<lparr>writer_open = True, device_open = True, pyaudio_live = True,
              session_open = False\<rparr>"
    by (simp add: sample_defs task_defs released_def require_def)
  show ?thesis
    unfolding r using cur d modal_done(1) [OF cur d] bt o x p by (simp add: stopped_task(2))
qed

subsection \<open>C10: the prompt and the last audio path are cleared at submission\<close>

text \<open>
  C10. An accepted submission leaves the prompt field and the last audio path empty,
  and the last audio path stays empty along every run that follows in which no tick
  reconciles, whatever the path was before the submission.
\<close>

theorem pointer_cleared_while_in_flight:
  assumes "submit e w = (w1, Some c)" and "in_flight e w1 acts"
  shows "composer4u_input w1 = [] \<and> composer4u_last_audio_path w1 = []
       \<and> composer4u_last_audio_path (run_actions e w1 acts) = []"
  using submit_accepted(2,3) [OF assms(1)] run_pointer [OF assms(2)] by simp

theorem pointer_cleared_while_in_flight_witness:
  "submit quiet_env (studio\<lparr>composer4u_last_audio_path := ''/tmp/old.wav''\<rparr>) =
     (fst (submit quiet_env (studio\<lparr>composer4u_last_audio_path := ''/tmp/old.wav''\<rparr>)),
      Some \<lparr>co_api_key = ''key'', co_prompt = ''calm piano'', co_output_folder = [],
            co_handle = 0\<rparr>)
   \<and> in_flight quiet_env
        (fst (submit quiet_env (studio\<lparr>composer4u_last_audio_path := ''/tmp/old.wav''\<rparr>)))
        [Tick, Stop]
   \<and> composer4u_last_audio_path (run_actions quiet_env
        (fst (submit quiet_env (studio\<lparr>composer4u_last_audio_path := ''/tmp/old.wav''\<rparr>)))
        [Tick, Stop]) = []"
proof -
  let ?w = "studio\<lparr>composer4u_last_audio_path := ''/tmp/old.wav''\<rparr>"
  let ?w1 = "fst (submit quiet_env ?w)"
  have h: "submit quiet_env ?w =
     (?w1, Some \<lparr>co_api_key = ''key'', co_prompt = ''calm piano'', co_output_folder = [],
            co_handle = 0\<rparr>)"
    by (simp add: prod_eq_iff submit_def poll_def invoke_def current_future_def strip_def
        whitespace_def submit_async_task_to_background_def report_def studio_def Let_def)
  note a = submit_accepted [OF h]
  have hs: "handles ?w = []" by (simp add: studio_def)
  have cur: "current_future ?w1 = Some Pending"
    using a(8,9) by (simp add: current_future_def hs)
  have p: "modal ?w1 = (?w1, PASS_THROUGH)"
    using modal_pending(2) [OF cur] by simp
  have f: "in_flight quiet_env ?w1 [Tick, Stop]"
    by (simp add: p)
  show ?thesis
    using h f pointer_cleared_while_in_flight [OF h f] by simp
qed

subsection \<open>C3: one outstanding handle\<close>

text \<open>
  C3. In every state the process reaches from a start without handles, at most one
  handle is not done; and in every such state where the class attribute holds a handle
  that is not done, the operator's \<^verbatim>\<open>poll\<close> fails, so that a submission is
  rejected and changes nothing.
\<close>

theorem single_outstanding_handle:
  assumes "handles w0 = []"
  shows "live_handles (run_actions e w0 acts) \<le> 1
       \<and> (if stop_poll (run_actions e w0 acts)
          then submit e' (run_actions e w0 acts) = (run_actions e w0 acts, None)
          else True)"
proof -
  have "only_current_live w0" using assms by (simp add: only_current_live_def)
  then have "only_current_live (run_actions e w0 acts)" by (rule run_only_current_live)
  then have "live_handles (run_actions e w0 acts) \<le> 1" by (rule live_handles_le_1)
  moreover have "submit e' w = (w, None)" if "stop_poll w" for w
    using that by (auto simp: submit_def poll_def stop_poll_def split: option.splits)
  ultimately show ?thesis by simp
qed

theorem single_outstanding_handle_witness:
  "handles studio = []
   \<and> stop_poll (run_actions quiet_env studio [Submit])
   \<and> submit quiet_env (run_actions quiet_env studio [Submit])
       = (run_actions quiet_env studio [Submit], None)
   \<and> live_handles (run_actions quiet_env studio [Submit]) \<le> 1"
proof -
  have hs: "handles studio = []" by (simp add: studio_def)
  have q: "quiet_env\<lparr>incoming := []\<rparr> = quiet_env" by (simp add: quiet_env_def)
  note a = submit_accepted [OF studio_submit [of "[]", unfolded q]]
  have r: "run_actions quiet_env studio [Submit] = fst (submit quiet_env studio)"
    by (simp add: run_actions_def)
  have sp: "stop_poll (run_actions quiet_env studio [Submit])"
    unfolding r using a(8,9) by (simp add: stop_poll_def current_future_def hs)
  show ?thesis
    using hs sp single_outstanding_handle [OF hs, of quiet_env "[Submit]" quiet_env]
    by simp
qed

end
